theory Spec2Isabelle
  imports Main "HOL-Library.AList"
begin

section \<open>JavaScript values\<close>

text \<open>
  The Toggl synchronization layer is TypeScript: \<^verbatim>\<open>src/lib/toggl/TogglClient.ts\<close> (the
  wire client \<^verbatim>\<open>TogglApiClient\<close>) and \<^verbatim>\<open>src/lib/toggl/ApiManager.ts\<close> (the facade
  \<^verbatim>\<open>TogglAPI\<close>). An optional field of a wire interface (\<^verbatim>\<open>x?: T | null\<close>) is absent
  (\<open>Undefined\<close>), \<open>Null\<close> or a value; the operator \<^verbatim>\<open>||\<close> tests truthiness, which
  depends on the type of the value: the number 0 and the empty string are falsy, every
  array is truthy.
\<close>

datatype 'a optional = Undefined | Null | Val 'a

fun truthy_num :: "int optional \<Rightarrow> bool" where
  "truthy_num (Val n) = (n \<noteq> 0)"
| "truthy_num _ = False"

fun truthy_str :: "string optional \<Rightarrow> bool" where
  "truthy_str (Val s) = (s \<noteq> [])"
| "truthy_str _ = False"

text \<open>\<^verbatim>\<open>xs || []\<close> for an optional array: an array, even an empty one, is truthy.\<close>

fun or_empty_array :: "'a list optional \<Rightarrow> 'a list" where
  "or_empty_array (Val xs) = xs"
| "or_empty_array _ = []"

text \<open>
  A report response is typed \<^verbatim>\<open>any\<close>: a parsed JSON document. Numbers are the
  integers (ids, seconds); an object is the list of its own properties, read with
  \<open>map_of\<close>. \<open>JUndefined\<close> is what reading a missing property gives.
\<close>

datatype json =
    JUndefined
  | JNull
  | JBool bool
  | JNum int
  | JStr string
  | JArr "json list"
  | JObj "(string \<times> json) list"

fun truthy :: "json \<Rightarrow> bool" where
  "truthy JUndefined = False"
| "truthy JNull = False"
| "truthy (JBool b) = b"
| "truthy (JNum n) = (n \<noteq> 0)"
| "truthy (JStr s) = (s \<noteq> [])"
| "truthy (JArr _) = True"
| "truthy (JObj _) = True"

text \<open>\<^verbatim>\<open>Array.isArray(v)\<close>.\<close>

fun isArray :: "json \<Rightarrow> bool" where
  "isArray (JArr _) = True"
| "isArray _ = False"

text \<open>
  \<^verbatim>\<open>v.name\<close> for a name that no prototype defines (\<^verbatim>\<open>data\<close>, \<^verbatim>\<open>results\<close>,
  \<^verbatim>\<open>graph\<close>, ...): the own property of an object, \<^verbatim>\<open>undefined\<close> on a boolean, a
  number, a string or an array. On \<^verbatim>\<open>null\<close> and \<^verbatim>\<open>undefined\<close> the read throws a
  TypeError; every caller below guards it or models the throw.
\<close>

fun getProperty :: "json \<Rightarrow> string \<Rightarrow> json" where
  "getProperty (JObj kvs) name = (case map_of kvs name of Some v \<Rightarrow> v | None \<Rightarrow> JUndefined)"
| "getProperty _ name = JUndefined"

fun elements :: "json \<Rightarrow> json list" where
  "elements (JArr xs) = xs"
| "elements _ = []"

subsection \<open>Numbers as text\<close>

text \<open>
  A template literal \<^verbatim>\<open>`${n}`\<close> renders an integer in decimal (below \<open>10^21\<close> in
  magnitude, which ids, HTTP statuses and Unix times are).
\<close>

definition digit_char :: "nat \<Rightarrow> char" where
  "digit_char d = ''0123456789'' ! d"

fun digits :: "nat \<Rightarrow> string" where
  "digits n = (if n < 10 then [digit_char n] else digits (n div 10) @ [digit_char (n mod 10)])"

declare digits.simps [simp del]

definition Number_toString :: "int \<Rightarrow> string" where
  "Number_toString i = (if i < 0 then CHR ''-'' # digits (nat (- i)) else digits (nat i))"

section \<open>Errors and effects\<close>

text \<open>
  A rejected promise carries a thrown value. \<open>Error m\<close> is \<^verbatim>\<open>new Error(m)\<close>;
  \<open>TypeError m\<close> is what the runtime throws on a property read of \<^verbatim>\<open>null\<close> or a call
  of a non-function. The observable side effects are the console's error log and the
  host's \<^verbatim>\<open>Notice\<close> pop-ups; an operation returns its settled result with the effects
  it caused, in order.
\<close>

datatype error = Error string | TypeError string

fun error_toString :: "error \<Rightarrow> string" where
  "error_toString (Error m) = ''Error: '' @ m"
| "error_toString (TypeError m) = ''TypeError: '' @ m"

datatype effect = ConsoleError string error | Notice string

type_synonym 'a promise = "(error + 'a) \<times> effect list"

fun is_Notice :: "effect \<Rightarrow> bool" where
  "is_Notice (Notice _) = True"
| "is_Notice _ = False"

text \<open>\<^verbatim>\<open>promise.catch(handler)\<close>.\<close>

definition catch :: "'a promise \<Rightarrow> (error \<Rightarrow> 'a promise) \<Rightarrow> 'a promise" where
  "catch p handler =
     (case p of
        (Inl e, fx) \<Rightarrow> (case handler e of (r, fx') \<Rightarrow> (r, fx @ fx'))
      | (Inr v, fx) \<Rightarrow> (Inr v, fx))"

text \<open>\<^verbatim>\<open>handleError\<close> (ApiManager.ts): log, notify the user, throw again.\<close>

definition handleError :: "error \<Rightarrow> 'a promise" where
  "handleError e =
     (Inl e,
      [ConsoleError ''Toggl API error: '' e,
       Notice (''Error communicating with Toggl API: '' @ error_toString e)])"

section \<open>The wire client\<close>

text \<open>
  The host's transport \<^verbatim>\<open>requestUrl\<close> is a capability: it is given the URL, the method
  and the body and either throws (\<open>Inl\<close>) or gives a response with a status, the raw
  text and the parsed body, each a property of the response object. The headers
  (authorization, content type, user agent) are the same on every call and are left out;
  the body is passed as the value that \<^verbatim>\<open>JSON.stringify\<close> serialises.
\<close>

datatype http_method = GET | POST | PUT | PATCH | DELETE

fun method_name :: "http_method \<Rightarrow> string" where
  "method_name GET = ''GET''"
| "method_name POST = ''POST''"
| "method_name PUT = ''PUT''"
| "method_name PATCH = ''PATCH''"
| "method_name DELETE = ''DELETE''"

record 'b RequestUrlParam =
  req_url :: string
  req_method :: http_method
  req_body :: "'b option"

record 'a RequestUrlResponse =
  resp_status :: int
  resp_text :: string
  resp_json :: 'a

type_synonym ('b, 'a) transport = "'b RequestUrlParam \<Rightarrow> error + 'a RequestUrlResponse"

definition TOGGL_API_BASE :: string where
  "TOGGL_API_BASE = ''https://api.track.toggl.com/api/v9''"

text \<open>
  \<^verbatim>\<open>TogglApiClient.request\<close>: the inner \<open>case\<close> is the body of the \<^verbatim>\<open>try\<close>, the outer
  one its \<^verbatim>\<open>catch\<close>, which logs the method and the URL and throws the error again.
\<close>

definition request ::
  "('b, 'a) transport \<Rightarrow> string \<Rightarrow> http_method \<Rightarrow> 'b option \<Rightarrow> 'a promise" where
  "request requestUrl endpoint method body =
     (let url = TOGGL_API_BASE @ endpoint in
      case (case requestUrl \<lparr>req_url = url, req_method = method, req_body = body\<rparr> of
              Inl error \<Rightarrow> Inl error
            | Inr response \<Rightarrow>
                if resp_status response \<ge> 400
                then Inl (Error (''HTTP '' @ Number_toString (resp_status response) @ '': ''
                                  @ resp_text response))
                else Inr (resp_json response)) of
        Inl error \<Rightarrow>
          (Inl error,
           [ConsoleError (''Toggl API request failed: '' @ method_name method @ '' '' @ url)
              error])
      | Inr v \<Rightarrow> (Inr v, []))"

subsection \<open>Reports\<close>

text \<open>
  Modelled from the spec: the type \<^verbatim>\<open>ISODate\<close>, declared in \<^verbatim>\<open>lib/reports/ReportQuery\<close>,
  which is not among the sources. The spec: "all dates passed as \<^verbatim>\<open>YYYY-MM-DD\<close>"; the
  facade passes such a value where a \<^verbatim>\<open>string\<close> is expected.
\<close>

type_synonym ISODate = string

record ReportOptions =
  start_date :: ISODate
  end_date :: ISODate
  project_ids :: "int list optional"
  tag_ids :: "int list optional"
  client_ids :: "int list optional"

text \<open>
  \<^verbatim>\<open>TogglApiClient.getDetailedReport\<close> and \<^verbatim>\<open>TogglApiClient.getSummaryReport\<close> do not
  go through \<open>request\<close>: they call the transport themselves, on the reports base URL.
\<close>

definition TogglApiClient_getDetailedReport ::
  "(ReportOptions, 'a) transport \<Rightarrow> int \<Rightarrow> ReportOptions \<Rightarrow> 'a promise" where
  "TogglApiClient_getDetailedReport requestUrl workspaceId options =
     (let reportUrl = ''https://api.track.toggl.com/reports/api/v3/workspace/''
                        @ Number_toString workspaceId @ ''/reports/detailed'' in
      case requestUrl \<lparr>req_url = reportUrl, req_method = POST, req_body = Some options\<rparr> of
        Inl error \<Rightarrow> (Inl error, [ConsoleError ''Detailed report request failed'' error])
      | Inr response \<Rightarrow> (Inr (resp_json response), []))"

definition TogglApiClient_getSummaryReport ::
  "(ReportOptions, 'a) transport \<Rightarrow> int \<Rightarrow> ReportOptions \<Rightarrow> 'a promise" where
  "TogglApiClient_getSummaryReport requestUrl workspaceId options =
     (let reportUrl = ''https://api.track.toggl.com/reports/api/v3/workspace/''
                        @ Number_toString workspaceId @ ''/reports/summary'' in
      case requestUrl \<lparr>req_url = reportUrl, req_method = POST, req_body = Some options\<rparr> of
        Inl error \<Rightarrow> (Inl error, [ConsoleError ''Summary report request failed'' error])
      | Inr response \<Rightarrow> (Inr (resp_json response), []))"

subsection \<open>Entities\<close>

text \<open>
  The wire interfaces \<^verbatim>\<open>TogglTimeEntry\<close> and \<^verbatim>\<open>TogglProject\<close>, with the fields the
  facade reads; the other properties of a wire object travel in the record's extension
  part. Timestamps are the strings the JSON body holds. The facade guards
  \<^verbatim>\<open>wid\<close> and \<^verbatim>\<open>workspace_id\<close> of a project against absence, so both are optional
  here.
\<close>

record TogglTimeEntry =
  tte_id :: int
  tte_workspace_id :: int
  tte_project_id :: "int optional"
  tte_task_id :: "int optional"
  tte_billable :: bool
  tte_start :: string
  tte_stop :: "string optional"
  tte_duration :: int
  tte_description :: "string optional"
  tte_tags :: "string list optional"
  tte_tag_ids :: "int list optional"
  tte_at :: string
  tte_server_deleted_at :: "string optional"
  tte_user_id :: int

record TogglProject =
  tp_id :: int
  tp_workspace_id :: "int optional"
  tp_wid :: "int optional"
  tp_client_id :: "int optional"
  tp_cid :: "int optional"
  tp_name :: string
  tp_is_private :: bool
  tp_active :: bool
  tp_at :: string
  tp_created_at :: string
  tp_server_deleted_at :: "string optional"
  tp_color :: string
  tp_rate_last_updated :: "string optional"
  tp_actual_hours :: "int optional"

record 'p TimeEntryBody =
  time_entry :: 'p

definition TogglApiClient_getCurrentTimeEntry ::
  "('b, TogglTimeEntry optional) transport \<Rightarrow> TogglTimeEntry optional promise" where
  "TogglApiClient_getCurrentTimeEntry requestUrl =
     request requestUrl ''/me/time_entries/current'' GET None"

text \<open>
  \<^verbatim>\<open>TogglApiClient.getTimeEntries\<close>. The query string is that of
  \<^verbatim>\<open>URLSearchParams\<close>, which leaves the digits and hyphens of a date as they are.
\<close>

definition TogglApiClient_getTimeEntries ::
  "('b, TogglTimeEntry list) transport \<Rightarrow> string optional \<Rightarrow> string optional
     \<Rightarrow> TogglTimeEntry list promise" where
  "TogglApiClient_getTimeEntries requestUrl startDate endDate =
     (let params =
            (case startDate of Val d \<Rightarrow> if d \<noteq> [] then [''start_date='' @ d] else [] | _ \<Rightarrow> [])
            @ (case endDate of Val d \<Rightarrow> if d \<noteq> [] then [''end_date='' @ d] else [] | _ \<Rightarrow> []);
          query = (case params of
                     [] \<Rightarrow> []
                   | [a] \<Rightarrow> a
                   | a # b # _ \<Rightarrow> a @ ''&'' @ b);
          endpoint = (if query \<noteq> [] then ''/me/time_entries'' @ ''?'' @ query
                      else ''/me/time_entries'')
      in request requestUrl endpoint GET None)"

definition TogglApiClient_createTimeEntry ::
  "('p TimeEntryBody, TogglTimeEntry) transport \<Rightarrow> int \<Rightarrow> 'p \<Rightarrow> TogglTimeEntry promise" where
  "TogglApiClient_createTimeEntry requestUrl workspaceId timeEntry =
     request requestUrl (''/workspaces/'' @ Number_toString workspaceId @ ''/time_entries'')
       POST (Some \<lparr>time_entry = timeEntry\<rparr>)"

definition TogglApiClient_stopTimeEntry ::
  "('b, TogglTimeEntry) transport \<Rightarrow> int \<Rightarrow> int \<Rightarrow> TogglTimeEntry promise" where
  "TogglApiClient_stopTimeEntry requestUrl workspaceId timeEntryId =
     request requestUrl
       (''/workspaces/'' @ Number_toString workspaceId @ ''/time_entries/''
          @ Number_toString timeEntryId @ ''/stop'')
       PATCH None"

definition TogglApiClient_getProjects ::
  "('b, 'm TogglProject_scheme list) transport \<Rightarrow> int \<Rightarrow> 'm TogglProject_scheme list promise"
  where
  "TogglApiClient_getProjects requestUrl workspaceId =
     (let endpoint = (if workspaceId \<noteq> 0
                      then ''/workspaces/'' @ Number_toString workspaceId @ ''/projects''
                      else ''/me/projects'')
      in request requestUrl endpoint GET None)"

section \<open>The facade\<close>

text \<open>
  An \<^verbatim>\<open>async\<close> method awaits a promise and goes on with its value (\<open>andThen\<close>); a
  rejected promise ends the method with the same error. The workspace id is the number
  \<^verbatim>\<open>parseInt(settings.workspace.id)\<close>; the clock readings (\<^verbatim>\<open>moment()\<close>) are
  parameters.
\<close>

definition resolve :: "'a \<Rightarrow> 'a promise" where
  "resolve v = (Inr v, [])"

definition settle :: "error + 'a \<Rightarrow> 'a promise" where
  "settle r = (r, [])"

definition andThen :: "'a promise \<Rightarrow> ('a \<Rightarrow> 'b promise) \<Rightarrow> 'b promise" where
  "andThen p k =
     (case p of
        (Inl e, fx) \<Rightarrow> (Inl e, fx)
      | (Inr v, fx) \<Rightarrow> (case k v of (r, fx') \<Rightarrow> (r, fx @ fx')))"

subsection \<open>Projects\<close>

text \<open>The object literal of \<^verbatim>\<open>getProjects\<close>: the project's own properties, five overridden.\<close>

definition backfillProject :: "'m TogglProject_scheme \<Rightarrow> 'm TogglProject_scheme" where
  "backfillProject project =
     project\<lparr>
       tp_actual_hours :=
         (if truthy_num (tp_actual_hours project) then tp_actual_hours project else Val 0),
       tp_cid := (if truthy_num (tp_cid project) then tp_cid project else tp_client_id project),
       tp_rate_last_updated :=
         (if truthy_str (tp_rate_last_updated project) then tp_rate_last_updated project
          else Null),
       tp_server_deleted_at :=
         (if truthy_str (tp_server_deleted_at project) then tp_server_deleted_at project
          else Null),
       tp_wid := (if truthy_num (tp_wid project) then tp_wid project
                  else tp_workspace_id project)\<rparr>"

definition TogglAPI_getProjects ::
  "('b, 'm TogglProject_scheme list) transport \<Rightarrow> int \<Rightarrow> 'm TogglProject_scheme list promise"
  where
  "TogglAPI_getProjects requestUrl workspaceId =
     andThen (catch (TogglApiClient_getProjects requestUrl workspaceId) handleError)
       (\<lambda>projects. resolve (map backfillProject (filter tp_active projects)))"

subsection \<open>Recent time entries\<close>

text \<open>
  The two object literals of \<^verbatim>\<open>getRecentTimeEntries\<close>: an occurrence, pushed to its
  group, and a returned item, cast to \<^verbatim>\<open>SearchTimeEntriesResponseItem\<close>.
\<close>

record Occurrence =
  occ_at :: string
  occ_id :: int
  occ_seconds :: int
  occ_start :: string
  occ_stop :: string

record SearchTimeEntriesResponseItem =
  grp_description :: string
  grp_hourly_rate_in_cents :: "int optional"
  grp_project_id :: "int optional"
  grp_row_number :: int
  grp_tag_ids :: "string list"
  grp_task_id :: "int optional"
  grp_time_entries :: "Occurrence list"
  grp_user_id :: int
  grp_username :: string

text \<open>
  The grouping key, a template literal. It starts with the decimal form of a number and
  holds two underscores, so it is never empty, never an array index and never a name that
  \<^verbatim>\<open>Object.prototype\<close> defines: \<^verbatim>\<open>groupedEntries\<close> behaves as a dictionary whose keys
  \<^verbatim>\<open>Object.keys\<close> lists in insertion order, here an association list.
\<close>

definition groupKey :: "TogglTimeEntry \<Rightarrow> string" where
  "groupKey entry =
     Number_toString (tte_user_id entry) @ ''_''
     @ (case tte_project_id entry of
          Val p \<Rightarrow> if p \<noteq> 0 then Number_toString p else ''no_project''
        | _ \<Rightarrow> ''no_project'')
     @ ''_''
     @ (case tte_description entry of
          Val d \<Rightarrow> if d \<noteq> [] then d else ''no_desc''
        | _ \<Rightarrow> ''no_desc'')"

definition occurrence :: "TogglTimeEntry \<Rightarrow> Occurrence" where
  "occurrence entry =
     \<lparr>occ_at = tte_at entry,
      occ_id = tte_id entry,
      occ_seconds = (if tte_duration entry > 0 then tte_duration entry else 0),
      occ_start = tte_start entry,
      occ_stop = (case tte_stop entry of
                    Val s \<Rightarrow> if s \<noteq> [] then s else tte_start entry
                  | _ \<Rightarrow> tte_start entry)\<rparr>"

text \<open>\<^verbatim>\<open>groupedEntries[key].push(x)\<close>: the array stored under the key grows by \<open>x\<close>.\<close>

definition pushTo ::
  "string \<Rightarrow> 'o \<Rightarrow> (string \<times> 'o list) list \<Rightarrow> (string \<times> 'o list) list" where
  "pushTo key x groupedEntries =
     map (\<lambda>(k, es). if k = key then (k, es @ [x]) else (k, es)) groupedEntries"

text \<open>One round of the \<^verbatim>\<open>forEach\<close>, for the key and the occurrence of the entry.\<close>

definition addTo ::
  "string \<Rightarrow> 'o \<Rightarrow> (string \<times> 'o list) list \<Rightarrow> (string \<times> 'o list) list" where
  "addTo key x groupedEntries =
     pushTo key x
       (if map_of groupedEntries key = None then groupedEntries @ [(key, [])]
        else groupedEntries)"

definition addEntry ::
  "(string \<times> Occurrence list) list \<Rightarrow> TogglTimeEntry \<Rightarrow> (string \<times> Occurrence list) list"
  where
  "addEntry groupedEntries entry = addTo (groupKey entry) (occurrence entry) groupedEntries"

text \<open>
  \<^verbatim>\<open>groupedEntries[key]\<close> for a key that \<^verbatim>\<open>Object.keys\<close> listed; the key is always
  there, the second case is for totality only.
\<close>

definition entriesOf :: "(string \<times> 'o list) list \<Rightarrow> string \<Rightarrow> 'o list" where
  "entriesOf groupedEntries key =
     (case map_of groupedEntries key of Some es \<Rightarrow> es | None \<Rightarrow> [])"

text \<open>The object literal of the final \<^verbatim>\<open>map\<close>, with \<^verbatim>\<open>firstEntry\<close> as \<^verbatim>\<open>find\<close> gave it.\<close>

definition recentItem ::
  "nat \<Rightarrow> TogglTimeEntry option \<Rightarrow> Occurrence list \<Rightarrow> SearchTimeEntriesResponseItem" where
  "recentItem index firstEntry entries =
     \<lparr>grp_description =
        (case firstEntry of
           Some e \<Rightarrow> (case tte_description e of Val d \<Rightarrow> d | _ \<Rightarrow> [])
         | None \<Rightarrow> []),
      grp_hourly_rate_in_cents = Null,
      grp_project_id =
        (case firstEntry of
           Some e \<Rightarrow> if truthy_num (tte_project_id e) then tte_project_id e else Null
         | None \<Rightarrow> Null),
      grp_row_number = int index + 1,
      grp_tag_ids =
        map Number_toString
          (case firstEntry of Some e \<Rightarrow> or_empty_array (tte_tag_ids e) | None \<Rightarrow> []),
      grp_task_id = Null,
      grp_time_entries = entries,
      grp_user_id = (case firstEntry of Some e \<Rightarrow> tte_user_id e | None \<Rightarrow> 0),
      grp_username = ''User''\<rparr>"

definition groupRecentEntries ::
  "TogglTimeEntry list \<Rightarrow> SearchTimeEntriesResponseItem list" where
  "groupRecentEntries response =
     (let groupedEntries = foldl addEntry [] response in
      map (\<lambda>(index, key).
             let entries = entriesOf groupedEntries key;
                 firstEntry =
                   find (\<lambda>e. list_ex (\<lambda>entry. occ_id entry = tte_id e) entries) response
             in recentItem index firstEntry entries)
        (enumerate 0
           (filter (\<lambda>key. length (entriesOf groupedEntries key) > 0)
              (map fst groupedEntries))))"

text \<open>
  \<^verbatim>\<open>getRecentTimeEntries\<close>; \<open>startDate\<close> and \<open>endDate\<close> are the clock's
  \<^verbatim>\<open>moment().subtract(9, "day")\<close> and \<^verbatim>\<open>moment()\<close>, formatted.
\<close>

definition TogglAPI_getRecentTimeEntries ::
  "('b, TogglTimeEntry list) transport \<Rightarrow> string \<Rightarrow> string
     \<Rightarrow> SearchTimeEntriesResponseItem list promise" where
  "TogglAPI_getRecentTimeEntries requestUrl startDate endDate =
     andThen
       (catch (TogglApiClient_getTimeEntries requestUrl (Val startDate) (Val endDate))
          handleError)
       (\<lambda>response. resolve (groupRecentEntries response))"

subsection \<open>Reports\<close>

text \<open>\<^verbatim>\<open>a || b\<close> on untyped values.\<close>

definition orElse :: "json \<Rightarrow> json \<Rightarrow> json" where
  "orElse a b = (if truthy a then a else b)"

fun mapThrowing :: "('a \<Rightarrow> error + 'b) \<Rightarrow> 'a list \<Rightarrow> error + 'b list" where
  "mapThrowing f [] = Inr []"
| "mapThrowing f (x # xs) =
     (case f x of
        Inl e \<Rightarrow> Inl e
      | Inr y \<Rightarrow> (case mapThrowing f xs of Inl e \<Rightarrow> Inl e | Inr ys \<Rightarrow> Inr (y # ys)))"

definition summaryGroup :: "json \<Rightarrow> error + json" where
  "summaryGroup grp =
     (if grp = JNull \<or> grp = JUndefined
      then Inl (TypeError ''Cannot read properties of null (reading id)'')
      else Inr (JObj [(''id'', getProperty grp ''id''),
                      (''name'', getProperty grp ''name''),
                      (''seconds'', getProperty grp ''seconds'')]))"

text \<open>The body of the \<^verbatim>\<open>try\<close> of \<^verbatim>\<open>getDailySummary\<close>, after the response has come.\<close>

definition dailySummaryItems :: "json \<Rightarrow> error + json list" where
  "dailySummaryItems response =
     (if response = JNull \<or> response = JUndefined
      then Inl (TypeError ''Cannot read properties of null (reading groups)'')
      else if truthy (getProperty response ''groups'')
      then (case getProperty response ''groups'' of
              JArr groups \<Rightarrow> mapThrowing summaryGroup groups
            | _ \<Rightarrow> Inl (TypeError ''response.groups.map is not a function''))
      else Inr [])"

definition TogglAPI_getDailySummary ::
  "(ReportOptions, json) transport \<Rightarrow> int \<Rightarrow> ISODate \<Rightarrow> json list promise" where
  "TogglAPI_getDailySummary requestUrl workspaceId today =
     catch
       (andThen
          (catch
             (TogglApiClient_getSummaryReport requestUrl workspaceId
                \<lparr>start_date = today, end_date = today, project_ids = Undefined,
                 tag_ids = Undefined, client_ids = Undefined\<rparr>)
             handleError)
          (\<lambda>response. settle (dailySummaryItems response)))
       (\<lambda>error. (Inr [], [ConsoleError ''Error fetching daily summary:'' error]))"

definition TogglAPI_getSummary ::
  "(ReportOptions, json) transport \<Rightarrow> int \<Rightarrow> ReportOptions \<Rightarrow> json promise" where
  "TogglAPI_getSummary requestUrl workspaceId options =
     andThen (catch (TogglApiClient_getSummaryReport requestUrl workspaceId options) handleError)
       resolve"

text \<open>
  The dates of a report are read with the library \<^verbatim>\<open>moment\<close>, which is not part of the
  repository. A moment is invalid or an instant, in milliseconds since the epoch, with the
  offset from UTC, in minutes, that the host's time zone has at that instant. The parse
  \<^verbatim>\<open>moment(date)\<close> depends on the host's zone and is a parameter of what follows: it
  reads a date as the local midnight of that day, or as the first instant after it when a
  change of offset skips that midnight.
\<close>

datatype Moment = InvalidDate | Moment int int

text \<open>
  \<^verbatim>\<open>this.diff(that, "days")\<close>: the elapsed milliseconds, less the change of offset between
  the two moments, divided by the length of a day and truncated towards zero; \<^verbatim>\<open>NaN\<close>
  (\<open>None\<close>) when either moment is invalid.
\<close>

definition absFloor :: "int \<Rightarrow> int \<Rightarrow> int" where
  "absFloor n d = (if n < 0 then - ((- n) div d) else n div d)"

fun diff_days :: "Moment \<Rightarrow> Moment \<Rightarrow> int option" where
  "diff_days (Moment this thisOffset) (Moment that thatOffset) =
     (let zoneDelta = (thatOffset - thisOffset) * 60000
      in Some (absFloor (this - that - zoneDelta) 86400000))"
| "diff_days _ _ = None"

text \<open>\<^verbatim>\<open>x <= n\<close> for a number that may be \<^verbatim>\<open>NaN\<close>: every comparison with \<^verbatim>\<open>NaN\<close> is false.\<close>

fun lessEq :: "int option \<Rightarrow> int \<Rightarrow> bool" where
  "lessEq (Some x) n = (x \<le> n)"
| "lessEq None n = False"

text \<open>\<^verbatim>\<open>getResolutionFromDateRange\<close>, with the library's parse as its first argument.\<close>

definition getResolutionFromDateRange ::
  "(string \<Rightarrow> Moment) \<Rightarrow> string \<Rightarrow> string \<Rightarrow> string" where
  "getResolutionFromDateRange moment startDate endDate =
     (let startMoment = moment startDate;
          endMoment = moment endDate;
          diffDays = diff_days endMoment startMoment
      in if lessEq diffDays 1 then ''hour''
         else if lessEq diffDays 7 then ''day''
         else if lessEq diffDays 31 then ''day''
         else ''month'')"

text \<open>
  The spread \<^verbatim>\<open>{ ..., ...source }\<close> copies the own enumerable properties of the source
  over the properties written before it: an object's properties, the elements of an
  array and the characters of a string under their indices, nothing for another value.
  An assignment to a name the object has replaces the value in place.
\<close>

fun ownProperties :: "json \<Rightarrow> (string \<times> json) list" where
  "ownProperties (JObj kvs) = kvs"
| "ownProperties (JArr xs) = map (\<lambda>(i, x). (Number_toString (int i), x)) (enumerate 0 xs)"
| "ownProperties (JStr s) =
     map (\<lambda>(i, c). (Number_toString (int i), JStr [c])) (enumerate 0 s)"
| "ownProperties _ = []"

definition spread :: "(string \<times> json) list \<Rightarrow> json \<Rightarrow> (string \<times> json) list" where
  "spread target source =
     foldl (\<lambda>obj (k, v). AList.update k v obj) target (ownProperties source)"

text \<open>The object literal of \<^verbatim>\<open>getSummaryTimeChart\<close>; the spread of the response is last.\<close>

definition summaryTimeChart ::
  "(string \<Rightarrow> Moment) \<Rightarrow> ReportOptions \<Rightarrow> json \<Rightarrow> error + json" where
  "summaryTimeChart moment options response =
     (if response = JNull \<or> response = JUndefined
      then Inl (TypeError ''Cannot read properties of null (reading graph)'')
      else Inr (JObj (spread
                  [(''graph'', orElse (getProperty response ''graph'') (JArr [])),
                   (''resolution'',
                    JStr (getResolutionFromDateRange moment (start_date options)
                            (end_date options))),
                   (''total_seconds'',
                    orElse (getProperty response ''total_seconds'') (JNum 0))]
                  response)))"

definition TogglAPI_getSummaryTimeChart ::
  "(string \<Rightarrow> Moment) \<Rightarrow> (ReportOptions, json) transport \<Rightarrow> int \<Rightarrow> ReportOptions
     \<Rightarrow> json promise" where
  "TogglAPI_getSummaryTimeChart moment requestUrl workspaceId options =
     catch
       (andThen
          (catch (TogglApiClient_getSummaryReport requestUrl workspaceId options) handleError)
          (\<lambda>response. settle (summaryTimeChart moment options response)))
       (\<lambda>error. (Inl error, [ConsoleError ''Error fetching summary time chart:'' error]))"

text \<open>
  Modelled from the spec: \<^verbatim>\<open>ApiQueue.queue\<close>, whose file
  (\<^verbatim>\<open>src/lib/toggl/ApiQueue.ts\<close>) is not among the sources. The spec: it "accepts a
  zero-argument asynchronous operation; returns a deferred result that resolves or
  fails with exactly what operation resolves or fails with".
\<close>

definition queue :: "(unit \<Rightarrow> 'a promise) \<Rightarrow> 'a promise" where
  "queue operation = operation ()"

text \<open>The envelope test of \<^verbatim>\<open>getDetailedReport\<close>, branch by branch.\<close>

definition detailedReportItems :: "json \<Rightarrow> json list" where
  "detailedReportItems response =
     (if isArray response then elements response
      else if truthy response \<and> isArray (getProperty response ''data'')
      then elements (getProperty response ''data'')
      else if truthy response \<and> truthy (getProperty response ''results'')
              \<and> isArray (getProperty response ''results'')
      then elements (getProperty response ''results'')
      else [])"

definition TogglAPI_getDetailedReport ::
  "(ReportOptions, json) transport \<Rightarrow> int \<Rightarrow> ReportOptions \<Rightarrow> json list promise" where
  "TogglAPI_getDetailedReport requestUrl workspaceId options =
     andThen (queue (\<lambda>_. TogglApiClient_getDetailedReport requestUrl workspaceId options))
       (\<lambda>response. resolve (detailedReportItems response))"

subsection \<open>Timers\<close>

text \<open>
  Modelled from the spec: the types \<^verbatim>\<open>TimeEntryStart\<close> and \<^verbatim>\<open>TimeEntry\<close>, declared in
  \<^verbatim>\<open>lib/model/Report-v3\<close>, which is not among the sources. The spec's TimeEntry has an
  "identifier, workspace id, optional project id, description, tag ids, start timestamp,
  optional stop timestamp (null: currently running), signed duration, billable flag,
  audit timestamp, optional soft-delete timestamp, owning user id"; the records hold
  these, under the names of the properties that the facade reads and writes.
  \<^verbatim>\<open>TimeEntryPayload\<close> is the object literal that \<^verbatim>\<open>startTimer\<close> submits.
\<close>

record TimeEntryStart =
  tes_description :: string
  tes_project_id :: "int optional"
  tes_billable :: "bool optional"
  tes_tags :: "string list optional"

record TimeEntryPayload =
  pl_billable :: bool
  pl_created_with :: string
  pl_description :: string
  pl_duration :: int
  pl_project_id :: "int optional"
  pl_start :: string
  pl_stop :: "string optional"
  pl_tags :: "string list"
  pl_workspace_id :: int

record TimeEntry =
  te_at :: string
  te_billable :: "bool optional"
  te_description :: string
  te_duration :: int
  te_id :: int
  te_project_id :: "int optional"
  te_server_deleted_at :: "string optional"
  te_start :: string
  te_stop :: "string optional"
  te_tag_ids :: "int list"
  te_tags :: "string list"
  te_user_id :: int
  te_workspace_id :: int

text \<open>
  The payload of \<^verbatim>\<open>startTimer\<close>: \<open>unix\<close> is \<^verbatim>\<open>moment().unix()\<close>, \<open>formatted\<close> is
  \<^verbatim>\<open>moment().format()\<close>.
\<close>

definition startTimerPayload ::
  "int \<Rightarrow> int \<Rightarrow> string \<Rightarrow> TimeEntryStart \<Rightarrow> TimeEntryPayload" where
  "startTimerPayload workspaceId unix formatted entry =
     \<lparr>pl_billable = (case tes_billable entry of Val b \<Rightarrow> b | _ \<Rightarrow> False),
      pl_created_with = ''Toggl Track for Obsidian'',
      pl_description = tes_description entry,
      pl_duration = - unix,
      pl_project_id = tes_project_id entry,
      pl_start = formatted,
      pl_stop = Null,
      pl_tags = or_empty_array (tes_tags entry),
      pl_workspace_id = workspaceId\<rparr>"

definition TogglAPI_startTimer ::
  "(TimeEntryPayload TimeEntryBody, TogglTimeEntry) transport \<Rightarrow> int \<Rightarrow> int \<Rightarrow> string
     \<Rightarrow> TimeEntryStart \<Rightarrow> TimeEntry promise" where
  "TogglAPI_startTimer requestUrl workspaceId unix formatted entry =
     (let timeEntry = startTimerPayload workspaceId unix formatted entry in
      andThen
        (catch (TogglApiClient_createTimeEntry requestUrl workspaceId timeEntry) handleError)
        (\<lambda>result. resolve
           \<lparr>te_at = tte_at result,
            te_billable = tes_billable entry,
            te_description = tes_description entry,
            te_duration = tte_duration result,
            te_id = tte_id result,
            te_project_id = tte_project_id result,
            te_server_deleted_at = tte_server_deleted_at result,
            te_start = tte_start result,
            te_stop = tte_stop result,
            te_tag_ids = or_empty_array (tte_tag_ids result),
            te_tags = or_empty_array (tte_tags result),
            te_user_id = tte_user_id result,
            te_workspace_id = tte_workspace_id result\<rparr>))"

definition TogglAPI_stopTimer ::
  "('b, TogglTimeEntry) transport \<Rightarrow> int \<Rightarrow> TimeEntry \<Rightarrow> TimeEntry promise" where
  "TogglAPI_stopTimer requestUrl workspaceId entry =
     andThen
       (catch (TogglApiClient_stopTimeEntry requestUrl workspaceId (te_id entry)) handleError)
       (\<lambda>result. resolve
          (entry\<lparr>
             te_at := tte_at result,
             te_duration := tte_duration result,
             te_id := tte_id result,
             te_project_id := tte_project_id result,
             te_server_deleted_at := tte_server_deleted_at result,
             te_start := tte_start result,
             te_stop := tte_stop result,
             te_tag_ids := or_empty_array (tte_tag_ids result),
             te_tags := or_empty_array (tte_tags result),
             te_user_id := tte_user_id result,
             te_workspace_id := tte_workspace_id result\<rparr>))"

text \<open>
  \<^verbatim>\<open>getCurrentTimer\<close>: the wire call is awaited bare, with no \<^verbatim>\<open>catch\<close>. The entry it
  builds has no \<^verbatim>\<open>billable\<close> property.
\<close>

definition TogglAPI_getCurrentTimer ::
  "('b, TogglTimeEntry optional) transport \<Rightarrow> TimeEntry optional promise" where
  "TogglAPI_getCurrentTimer requestUrl =
     andThen (TogglApiClient_getCurrentTimeEntry requestUrl)
       (\<lambda>result.
          case result of
            Val r \<Rightarrow>
              resolve (Val
                \<lparr>te_at = tte_at r,
                 te_billable = Undefined,
                 te_description = (case tte_description r of Val d \<Rightarrow> d | _ \<Rightarrow> []),
                 te_duration = tte_duration r,
                 te_id = tte_id r,
                 te_project_id = tte_project_id r,
                 te_server_deleted_at = tte_server_deleted_at r,
                 te_start = tte_start r,
                 te_stop = tte_stop r,
                 te_tag_ids = or_empty_array (tte_tag_ids r),
                 te_tags = or_empty_array (tte_tags r),
                 te_user_id = tte_user_id r,
                 te_workspace_id = tte_workspace_id r\<rparr>)
          | _ \<Rightarrow> resolve Null)"

text \<open>The remote convention: a time entry's \<^verbatim>\<open>stop\<close> is null exactly when it runs.\<close>

definition stopPairedWithDuration :: "string optional \<Rightarrow> int \<Rightarrow> bool" where
  "stopPairedWithDuration stop duration = ((stop = Null) = (duration < 0))"

section \<open>Reference notions and sample data\<close>

text \<open>
  The keys of a list in the order of their first occurrence: the order in which the fold
  of \<^verbatim>\<open>getRecentTimeEntries\<close> meets the groups.
\<close>

fun firstSeen :: "'a list \<Rightarrow> 'a list" where
  "firstSeen [] = []"
| "firstSeen (k # ks) = k # filter (\<lambda>x. x \<noteq> k) (firstSeen ks)"

text \<open>
  The groups as the data model describes them: one per key, in first-seen order, each
  with the images of the entries of that key in input order.
\<close>

definition groupsOf ::
  "('e \<Rightarrow> string) \<Rightarrow> ('e \<Rightarrow> 'o) \<Rightarrow> 'e list \<Rightarrow> (string \<times> 'o list) list" where
  "groupsOf f h xs = map (\<lambda>k. (k, map h (filter (\<lambda>e. f e = k) xs))) (firstSeen (map f xs))"

text \<open>
  A moment that is the local midnight beginning the day with a given day number (days
  since 1970-01-01): its instant, moved by its offset, is that many whole days.
\<close>

fun localMidnight :: "Moment \<Rightarrow> int \<Rightarrow> bool" where
  "localMidnight (Moment instant offset) day = (instant + offset * 60000 = day * 86400000)"
| "localMidnight InvalidDate day = False"

text \<open>
  Sample data for the concrete runs below: a stopped and a running wire entry, a
  project, the facade's inputs, a transport that answers every request with status 200
  and a given body, one that always throws, and a response with status 500.
\<close>

definition exampleEntry :: TogglTimeEntry where
  "exampleEntry =
     \<lparr>tte_id = 1, tte_workspace_id = 7, tte_project_id = Val 42, tte_task_id = Undefined,
      tte_billable = False, tte_start = ''2024-01-05T09:00:00Z'',
      tte_stop = Val ''2024-01-05T09:01:00Z'', tte_duration = 60,
      tte_description = Val ''Writing'', tte_tags = Undefined, tte_tag_ids = Val [3, 4],
      tte_at = ''2024-01-05T09:01:00Z'', tte_server_deleted_at = Null, tte_user_id = 9\<rparr>"

definition exampleRunningEntry :: TogglTimeEntry where
  "exampleRunningEntry =
     exampleEntry\<lparr>tte_id := 2, tte_description := Null, tte_stop := Null,
                    tte_duration := - 1704445200\<rparr>"

definition exampleProject :: TogglProject where
  "exampleProject =
     \<lparr>tp_id = 42, tp_workspace_id = Val 7, tp_wid = Undefined, tp_client_id = Val 5,
      tp_cid = Undefined, tp_name = ''Thesis'', tp_is_private = True, tp_active = True,
      tp_at = ''2024-01-01T00:00:00Z'', tp_created_at = ''2023-12-01T00:00:00Z'',
      tp_server_deleted_at = Undefined, tp_color = ''#0b83d9'',
      tp_rate_last_updated = Undefined, tp_actual_hours = Undefined\<rparr>"

definition exampleStart :: TimeEntryStart where
  "exampleStart =
     \<lparr>tes_description = ''Writing'', tes_project_id = Val 42, tes_billable = Undefined,
      tes_tags = Undefined\<rparr>"

definition exampleRunning :: TimeEntry where
  "exampleRunning =
     \<lparr>te_at = ''2024-01-05T09:00:00Z'', te_billable = Val False, te_description = ''Writing'',
      te_duration = - 1704445200, te_id = 1, te_project_id = Val 42,
      te_server_deleted_at = Null, te_start = ''2024-01-05T09:00:00Z'', te_stop = Null,
      te_tag_ids = [], te_tags = [], te_user_id = 9, te_workspace_id = 7\<rparr>"

definition exampleOptions :: ReportOptions where
  "exampleOptions =
     \<lparr>start_date = ''2024-01-01'', end_date = ''2024-01-02'', project_ids = Undefined,
      tag_ids = Undefined, client_ids = Undefined\<rparr>"

definition exampleTransport :: "'a \<Rightarrow> ('b, 'a) transport" where
  "exampleTransport body = (\<lambda>_. Inr \<lparr>resp_status = 200, resp_text = [], resp_json = body\<rparr>)"

definition failingTransport :: "('b, 'a) transport" where
  "failingTransport = (\<lambda>_. Inl (Error ''net::ERR_INTERNET_DISCONNECTED''))"

definition failedResponse :: "json RequestUrlResponse" where
  "failedResponse =
     \<lparr>resp_status = 500, resp_text = ''Internal Server Error'',
      resp_json = JObj [(''error'', JStr ''Internal Server Error'')]\<rparr>"

text \<open>
  The parse of five dates on a host in UTC, where 2024-01-01 is day 19723, and of two
  dates on a host in the zone Africa/Cairo, where the clocks went from 00:00 to 01:00 on
  2024-04-26 (day 19839): that date is read as 01:00 at offset +03:00, and 2024-05-28
  (day 19871) as its midnight at the same offset.
\<close>

definition utcMoment :: "string \<Rightarrow> Moment" where
  "utcMoment date =
     (if date = ''2024-01-01'' then Moment 1704067200000 0
      else if date = ''2024-01-02'' then Moment 1704153600000 0
      else if date = ''2024-01-08'' then Moment 1704672000000 0
      else if date = ''2024-02-01'' then Moment 1706745600000 0
      else if date = ''2024-02-02'' then Moment 1706832000000 0
      else InvalidDate)"

definition cairoMoment :: "string \<Rightarrow> Moment" where
  "cairoMoment date =
     (if date = ''2024-04-26'' then Moment 1714082400000 180
      else if date = ''2024-05-28'' then Moment 1716843600000 180
      else InvalidDate)"

section \<open>Properties of the wire client\<close>

lemma request_transport_failure:
  "requestUrl \<lparr>req_url = TOGGL_API_BASE @ endpoint, req_method = method, req_body = body\<rparr>
     = Inl e \<Longrightarrow>
   request requestUrl endpoint method body =
     (Inl e,
      [ConsoleError (''Toggl API request failed: '' @ method_name method @ '' ''
                      @ TOGGL_API_BASE @ endpoint) e])"
  by (simp add: request_def)

lemma request_http_failure:
  "requestUrl \<lparr>req_url = TOGGL_API_BASE @ endpoint, req_method = method, req_body = body\<rparr>
     = Inr r \<Longrightarrow> 400 \<le> resp_status r \<Longrightarrow>
   request requestUrl endpoint method body =
     (Inl (Error (''HTTP '' @ Number_toString (resp_status r) @ '': '' @ resp_text r)),
      [ConsoleError (''Toggl API request failed: '' @ method_name method @ '' ''
                      @ TOGGL_API_BASE @ endpoint)
         (Error (''HTTP '' @ Number_toString (resp_status r) @ '': '' @ resp_text r))])"
  by (simp add: request_def)

lemma request_success:
  "requestUrl \<lparr>req_url = TOGGL_API_BASE @ endpoint, req_method = method, req_body = body\<rparr>
     = Inr r \<Longrightarrow> resp_status r < 400 \<Longrightarrow>
   request requestUrl endpoint method body = (Inr (resp_json r), [])"
  by (simp add: request_def)

lemma request_never_notifies:
  "filter is_Notice (snd (request requestUrl endpoint method body)) = []"
  by (simp add: request_def Let_def split: sum.splits)

text \<open>
  Claim C10. The two reports operations of the wire client never look at the HTTP
  status: whatever response the transport gives to their request, with any status, they
  return its parsed body as a success and log nothing; and when they fail, it is with
  the error that the transport itself threw.
\<close>

theorem report_operations_ignore_status:
  "(\<forall>response.
      requestUrl \<lparr>req_url = ''https://api.track.toggl.com/reports/api/v3/workspace/''
                              @ Number_toString workspaceId @ ''/reports/detailed'',
                    req_method = POST, req_body = Some options\<rparr> = Inr response
      \<longrightarrow> TogglApiClient_getDetailedReport requestUrl workspaceId options
            = (Inr (resp_json response), []))
   \<and> (\<forall>error fx.
      TogglApiClient_getDetailedReport requestUrl workspaceId options = (Inl error, fx)
      \<longrightarrow> requestUrl \<lparr>req_url = ''https://api.track.toggl.com/reports/api/v3/workspace/''
                                  @ Number_toString workspaceId @ ''/reports/detailed'',
                        req_method = POST, req_body = Some options\<rparr> = Inl error)
   \<and> (\<forall>response.
      requestUrl \<lparr>req_url = ''https://api.track.toggl.com/reports/api/v3/workspace/''
                              @ Number_toString workspaceId @ ''/reports/summary'',
                    req_method = POST, req_body = Some options\<rparr> = Inr response
      \<longrightarrow> TogglApiClient_getSummaryReport requestUrl workspaceId options
            = (Inr (resp_json response), []))
   \<and> (\<forall>error fx.
      TogglApiClient_getSummaryReport requestUrl workspaceId options = (Inl error, fx)
      \<longrightarrow> requestUrl \<lparr>req_url = ''https://api.track.toggl.com/reports/api/v3/workspace/''
                                  @ Number_toString workspaceId @ ''/reports/summary'',
                        req_method = POST, req_body = Some options\<rparr> = Inl error)"
  by (auto simp: TogglApiClient_getDetailedReport_def TogglApiClient_getSummaryReport_def
           split: sum.splits)

text \<open>
  A response with status 500, returned as it is by both operations, and a transport
  that throws.
\<close>

theorem report_operations_ignore_status_witness:
  "TogglApiClient_getDetailedReport (\<lambda>_. Inr failedResponse) 7 exampleOptions
     = (Inr (JObj [(''error'', JStr ''Internal Server Error'')]), [])
   \<and> TogglApiClient_getSummaryReport (\<lambda>_. Inr failedResponse) 7 exampleOptions
     = (Inr (JObj [(''error'', JStr ''Internal Server Error'')]), [])
   \<and> (failingTransport :: (ReportOptions, json) transport)
       \<lparr>req_url = ''https://api.track.toggl.com/reports/api/v3/workspace/''
                    @ Number_toString 7 @ ''/reports/detailed'',
        req_method = POST, req_body = Some exampleOptions\<rparr>
     = Inl (Error ''net::ERR_INTERNET_DISCONNECTED'')
   \<and> (failingTransport :: (ReportOptions, json) transport)
       \<lparr>req_url = ''https://api.track.toggl.com/reports/api/v3/workspace/''
                    @ Number_toString 7 @ ''/reports/summary'',
        req_method = POST, req_body = Some exampleOptions\<rparr>
     = Inl (Error ''net::ERR_INTERNET_DISCONNECTED'')"
proof -
  note answered = report_operations_ignore_status
    [where requestUrl = "\<lambda>_. Inr failedResponse" and workspaceId = 7
       and options = exampleOptions]
  note thrown = report_operations_ignore_status
    [where requestUrl = "failingTransport :: (ReportOptions, json) transport"
       and workspaceId = 7 and options = exampleOptions]
  have detailed:
    "TogglApiClient_getDetailedReport
       (failingTransport :: (ReportOptions, json) transport) 7 exampleOptions
       = (Inl (Error ''net::ERR_INTERNET_DISCONNECTED''),
          [ConsoleError ''Detailed report request failed''
             (Error ''net::ERR_INTERNET_DISCONNECTED'')])"
    by (simp add: TogglApiClient_getDetailedReport_def failingTransport_def)
  have summary:
    "TogglApiClient_getSummaryReport
       (failingTransport :: (ReportOptions, json) transport) 7 exampleOptions
       = (Inl (Error ''net::ERR_INTERNET_DISCONNECTED''),
          [ConsoleError ''Summary report request failed''
             (Error ''net::ERR_INTERNET_DISCONNECTED'')])"
    by (simp add: TogglApiClient_getSummaryReport_def failingTransport_def)
  from answered have "TogglApiClient_getDetailedReport (\<lambda>_. Inr failedResponse) 7 exampleOptions
      = (Inr (resp_json failedResponse), [])"
    and "TogglApiClient_getSummaryReport (\<lambda>_. Inr failedResponse) 7 exampleOptions
      = (Inr (resp_json failedResponse), [])"
    by simp_all
  moreover from thrown detailed summary
  have "(failingTransport :: (ReportOptions, json) transport)
       \<lparr>req_url = ''https://api.track.toggl.com/reports/api/v3/workspace/''
                    @ Number_toString 7 @ ''/reports/detailed'',
        req_method = POST, req_body = Some exampleOptions\<rparr>
     = Inl (Error ''net::ERR_INTERNET_DISCONNECTED'')"
    and "(failingTransport :: (ReportOptions, json) transport)
       \<lparr>req_url = ''https://api.track.toggl.com/reports/api/v3/workspace/''
                    @ Number_toString 7 @ ''/reports/summary'',
        req_method = POST, req_body = Some exampleOptions\<rparr>
     = Inl (Error ''net::ERR_INTERNET_DISCONNECTED'')"
    by blast+
  ultimately show ?thesis
    by (simp add: failedResponse_def)
qed

text \<open>
  Claim C5. The claim asks of every operation of the wire client that a response with
  status 400 or more raises an error and that no body is returned for it. The operations
  that go through \<open>request\<close> do so (\<open>request_http_failure\<close>). The detailed report
  and the summary report do not: on a response with status 500 they return the body as
  a success and log nothing, where \<open>request\<close> raises \<^verbatim>\<open>HTTP 500: Internal Server Error\<close>
  and logs the method and the URL.
\<close>

theorem report_returns_body_of_failed_response:
  "TogglApiClient_getDetailedReport (\<lambda>_. Inr failedResponse) 7 exampleOptions
     = (Inr (JObj [(''error'', JStr ''Internal Server Error'')]), [])
   \<and> TogglApiClient_getSummaryReport (\<lambda>_. Inr failedResponse) 7 exampleOptions
     = (Inr (JObj [(''error'', JStr ''Internal Server Error'')]), [])
   \<and> request (\<lambda>_. Inr failedResponse) ''/me'' GET (None :: unit option)
     = (Inl (Error ''HTTP 500: Internal Server Error''),
        [ConsoleError ''Toggl API request failed: GET https://api.track.toggl.com/api/v9/me''
           (Error ''HTTP 500: Internal Server Error'')])"
  by code_simp

section \<open>Properties of the facade\<close>

subsection \<open>Awaiting and catching\<close>

lemma catch_resolved: "catch (Inr v, fx) handler = (Inr v, fx)"
  by (simp add: catch_def)

lemma catch_rejected: "catch (Inl e, fx) handler = (fst (handler e), fx @ snd (handler e))"
  by (simp add: catch_def split: prod.splits)

lemma andThen_resolved: "andThen (Inr v, fx) (\<lambda>v. resolve (g v)) = (Inr (g v), fx)"
  by (simp add: andThen_def resolve_def)

lemma andThen_rejected: "andThen (Inl e, fx) k = (Inl e, fx)"
  by (simp add: andThen_def)

lemma handled_failure:
  "andThen (catch (Inl e, fx) handleError) k =
     (Inl e,
      fx @ [ConsoleError ''Toggl API error: '' e,
            Notice (''Error communicating with Toggl API: '' @ error_toString e)])"
  by (simp add: catch_def handleError_def andThen_def)

text \<open>
  A failure of the wire client on a path that attaches \<open>handleError\<close> is logged by the
  facade, shown to the user in one notice and raised again.
\<close>

lemma getProjects_failure:
  "TogglApiClient_getProjects requestUrl workspaceId = (Inl e, fx) \<Longrightarrow>
   TogglAPI_getProjects requestUrl workspaceId =
     (Inl e,
      fx @ [ConsoleError ''Toggl API error: '' e,
            Notice (''Error communicating with Toggl API: '' @ error_toString e)])"
  by (simp add: TogglAPI_getProjects_def handled_failure)

lemma startTimer_failure:
  "TogglApiClient_createTimeEntry requestUrl workspaceId
     (startTimerPayload workspaceId unix formatted start) = (Inl e, fx) \<Longrightarrow>
   TogglAPI_startTimer requestUrl workspaceId unix formatted start =
     (Inl e,
      fx @ [ConsoleError ''Toggl API error: '' e,
            Notice (''Error communicating with Toggl API: '' @ error_toString e)])"
  by (simp add: TogglAPI_startTimer_def handled_failure)

lemma stopTimer_failure:
  "TogglApiClient_stopTimeEntry requestUrl workspaceId (te_id running) = (Inl e, fx) \<Longrightarrow>
   TogglAPI_stopTimer requestUrl workspaceId running =
     (Inl e,
      fx @ [ConsoleError ''Toggl API error: '' e,
            Notice (''Error communicating with Toggl API: '' @ error_toString e)])"
  by (simp add: TogglAPI_stopTimer_def handled_failure)

lemma getRecentTimeEntries_failure:
  "TogglApiClient_getTimeEntries requestUrl (Val startDate) (Val endDate) = (Inl e, fx) \<Longrightarrow>
   TogglAPI_getRecentTimeEntries requestUrl startDate endDate =
     (Inl e,
      fx @ [ConsoleError ''Toggl API error: '' e,
            Notice (''Error communicating with Toggl API: '' @ error_toString e)])"
  by (simp add: TogglAPI_getRecentTimeEntries_def handled_failure)

lemma getSummary_failure:
  "TogglApiClient_getSummaryReport requestUrl workspaceId options = (Inl e, fx) \<Longrightarrow>
   TogglAPI_getSummary requestUrl workspaceId options =
     (Inl e,
      fx @ [ConsoleError ''Toggl API error: '' e,
            Notice (''Error communicating with Toggl API: '' @ error_toString e)])"
  by (simp add: TogglAPI_getSummary_def handled_failure)

text \<open>The time chart logs the failure once more in its own \<^verbatim>\<open>catch\<close> before raising it.\<close>

lemma getSummaryTimeChart_failure:
  "TogglApiClient_getSummaryReport requestUrl workspaceId options = (Inl e, fx) \<Longrightarrow>
   TogglAPI_getSummaryTimeChart moment requestUrl workspaceId options =
     (Inl e,
      fx @ [ConsoleError ''Toggl API error: '' e,
            Notice (''Error communicating with Toggl API: '' @ error_toString e),
            ConsoleError ''Error fetching summary time chart:'' e])"
  unfolding TogglAPI_getSummaryTimeChart_def
  by (simp only: handled_failure) (simp add: catch_def)

text \<open>
  The daily summary is the best-effort path: the failure is still logged and notified by
  \<open>handleError\<close>, then caught, logged once more and turned into an empty list.
\<close>

lemma getDailySummary_failure:
  "TogglApiClient_getSummaryReport requestUrl workspaceId
     \<lparr>start_date = today, end_date = today, project_ids = Undefined, tag_ids = Undefined,
      client_ids = Undefined\<rparr> = (Inl e, fx) \<Longrightarrow>
   TogglAPI_getDailySummary requestUrl workspaceId today =
     (Inr [],
      fx @ [ConsoleError ''Toggl API error: '' e,
            Notice (''Error communicating with Toggl API: '' @ error_toString e),
            ConsoleError ''Error fetching daily summary:'' e])"
  unfolding TogglAPI_getDailySummary_def
  by (simp only: handled_failure) (simp add: catch_def)

text \<open>
  \<open>getCurrentTimer\<close> attaches no handler: whatever the wire client gives, the facade
  adds no effect of its own, so no notice is ever shown.
\<close>

lemma getCurrentTimer_effects:
  "snd (TogglAPI_getCurrentTimer requestUrl) = snd (TogglApiClient_getCurrentTimeEntry requestUrl)"
  by (cases "TogglApiClient_getCurrentTimeEntry requestUrl")
     (auto simp: TogglAPI_getCurrentTimer_def andThen_def resolve_def
           split: sum.splits optional.splits)

lemma getCurrentTimer_never_notifies:
  "filter is_Notice (snd (TogglAPI_getCurrentTimer requestUrl)) = []"
  by (simp add: getCurrentTimer_effects TogglApiClient_getCurrentTimeEntry_def
        request_never_notifies)

text \<open>
  Nor does \<open>getDetailedReport\<close>, which goes through the queue: a failure of the wire
  client is raised again as it is.
\<close>

lemma getDetailedReport_failure:
  "TogglApiClient_getDetailedReport requestUrl workspaceId options = (Inl e, fx) \<Longrightarrow>
   TogglAPI_getDetailedReport requestUrl workspaceId options = (Inl e, fx)"
  by (simp add: TogglAPI_getDetailedReport_def queue_def andThen_rejected)

text \<open>
  Claim C6. The claim asks that on every operation of the facade but the daily summary
  a failure of the wire client is logged by the facade, shown to the user and raised
  again. The operations that attach \<open>handleError\<close> do so (\<open>getProjects_failure\<close>,
  \<open>startTimer_failure\<close>, \<open>stopTimer_failure\<close>). \<open>getCurrentTimer\<close> does not: when the
  transport throws, the error reaches the caller with the wire client's log entry only,
  and no notice, where \<open>stopTimer\<close> on the same transport logs and notifies.
\<close>

theorem current_timer_failure_not_notified:
  "TogglAPI_getCurrentTimer (failingTransport :: (unit, TogglTimeEntry optional) transport)
     = (Inl (Error ''net::ERR_INTERNET_DISCONNECTED''),
        [ConsoleError
           ''Toggl API request failed: GET https://api.track.toggl.com/api/v9/me/time_entries/current''
           (Error ''net::ERR_INTERNET_DISCONNECTED'')])
   \<and> TogglAPI_stopTimer (failingTransport :: (unit, TogglTimeEntry) transport) 7 exampleRunning
     = (Inl (Error ''net::ERR_INTERNET_DISCONNECTED''),
        [ConsoleError
           ''Toggl API request failed: PATCH https://api.track.toggl.com/api/v9/workspaces/7/time_entries/1/stop''
           (Error ''net::ERR_INTERNET_DISCONNECTED''),
         ConsoleError ''Toggl API error: '' (Error ''net::ERR_INTERNET_DISCONNECTED''),
         Notice ''Error communicating with Toggl API: Error: net::ERR_INTERNET_DISCONNECTED''])"
  by code_simp

subsection \<open>Detailed report\<close>

text \<open>
  Claim C1. Whenever the wire client returns a response, \<open>getDetailedReport\<close> succeeds
  with a flat list: the elements of a bare array; else, for an object, the elements of its
  \<^verbatim>\<open>data\<close> array; else the elements of its \<^verbatim>\<open>results\<close> array; and the empty list for
  anything else (null, a boolean, a number, a string, an object with neither array). The
  three envelopes of the same items give the same list.
\<close>

theorem detailed_report_envelopes:
  assumes "TogglApiClient_getDetailedReport requestUrl workspaceId options = (Inr response, fx)"
  shows "TogglAPI_getDetailedReport requestUrl workspaceId options =
           (Inr (case response of
                   JArr items \<Rightarrow> items
                 | JObj properties \<Rightarrow>
                     (case map_of properties ''data'' of
                        Some (JArr items) \<Rightarrow> items
                      | _ \<Rightarrow> (case map_of properties ''results'' of
                                 Some (JArr items) \<Rightarrow> items
                               | _ \<Rightarrow> []))
                 | _ \<Rightarrow> []), fx)"
proof -
  have "detailedReportItems response =
          (case response of
             JArr items \<Rightarrow> items
           | JObj properties \<Rightarrow>
               (case map_of properties ''data'' of
                  Some (JArr items) \<Rightarrow> items
                | _ \<Rightarrow> (case map_of properties ''results'' of
                           Some (JArr items) \<Rightarrow> items
                         | _ \<Rightarrow> []))
           | _ \<Rightarrow> [])"
    by (simp add: detailedReportItems_def split: json.splits option.splits)
  with assms show ?thesis
    by (simp add: TogglAPI_getDetailedReport_def queue_def andThen_resolved)
qed

text \<open>
  The three envelopes of two items, and three other shapes.
\<close>

theorem detailed_report_envelopes_witness:
  "TogglAPI_getDetailedReport
     (exampleTransport (JArr [JObj [(''id'', JNum 1)], JObj [(''id'', JNum 2)]])
        :: (ReportOptions, json) transport) 7 exampleOptions
     = (Inr [JObj [(''id'', JNum 1)], JObj [(''id'', JNum 2)]], [])
   \<and> TogglAPI_getDetailedReport
     (exampleTransport
        (JObj [(''data'', JArr [JObj [(''id'', JNum 1)], JObj [(''id'', JNum 2)]])])
        :: (ReportOptions, json) transport) 7 exampleOptions
     = (Inr [JObj [(''id'', JNum 1)], JObj [(''id'', JNum 2)]], [])
   \<and> TogglAPI_getDetailedReport
     (exampleTransport
        (JObj [(''results'', JArr [JObj [(''id'', JNum 1)], JObj [(''id'', JNum 2)]])])
        :: (ReportOptions, json) transport) 7 exampleOptions
     = (Inr [JObj [(''id'', JNum 1)], JObj [(''id'', JNum 2)]], [])
   \<and> TogglAPI_getDetailedReport
     (exampleTransport JNull :: (ReportOptions, json) transport) 7 exampleOptions
     = (Inr [], [])
   \<and> TogglAPI_getDetailedReport
     (exampleTransport (JStr ''Bad Gateway'') :: (ReportOptions, json) transport)
     7 exampleOptions
     = (Inr [], [])
   \<and> TogglAPI_getDetailedReport
     (exampleTransport (JObj [(''data'', JNull), (''total'', JNum 2)])
        :: (ReportOptions, json) transport) 7 exampleOptions
     = (Inr [], [])"
proof -
  have fetched:
    "TogglApiClient_getDetailedReport
       (exampleTransport body :: (ReportOptions, json) transport) 7 exampleOptions
       = (Inr body, [])" for body
    by (simp add: TogglApiClient_getDetailedReport_def exampleTransport_def)
  note run = detailed_report_envelopes [OF fetched]
  show ?thesis
    using run [of "JArr [JObj [(''id'', JNum 1)], JObj [(''id'', JNum 2)]]"]
          run [of "JObj [(''data'', JArr [JObj [(''id'', JNum 1)], JObj [(''id'', JNum 2)]])]"]
          run [of "JObj [(''results'', JArr [JObj [(''id'', JNum 1)], JObj [(''id'', JNum 2)]])]"]
          run [of JNull]
          run [of "JStr ''Bad Gateway''"]
          run [of "JObj [(''data'', JNull), (''total'', JNum 2)]"]
    by simp
qed

subsection \<open>Time chart\<close>

lemma map_of_spread:
  "map_of (foldl (\<lambda>obj (k, v). AList.update k v obj) target kvs)
     = map_of target ++ map_of (rev kvs)"
proof (induction kvs arbitrary: target)
  case Nil
  show ?case by simp
next
  case (Cons kv kvs)
  obtain k v where kv: "kv = (k, v)" by (cases kv)
  have "map_of (AList.update k v target) ++ map_of (rev kvs)
          = map_of target ++ (map_of [(k, v)] ++ map_of (rev kvs))"
    by (simp add: update_conv' map_add_upd_left map_add_def fun_eq_iff split: option.splits)
  then show ?case
    by (simp add: Cons.IH kv)
qed

lemma getProperty_spread:
  assumes "name \<notin> fst ` set (ownProperties source)"
  shows "getProperty (JObj (spread target source)) name = getProperty (JObj target) name"
proof -
  from assms have "map_of (rev (ownProperties source)) name = None"
    by (simp add: map_of_eq_None_iff)
  then show ?thesis
    by (simp add: spread_def map_of_spread map_add_def)
qed

lemma absFloor_whole:
  assumes "0 < d"
  shows "absFloor (k * d) d = k"
proof (cases "k * d < 0")
  case True
  have "- (k * d) div d = - k"
    using assms nonzero_mult_div_cancel_right [of d "- k"] by simp
  with True show ?thesis
    by (simp add: absFloor_def)
next
  case False
  with assms show ?thesis
    by (simp add: absFloor_def)
qed

lemma diff_days_localMidnight:
  assumes "localMidnight startMoment startDay" and "localMidnight endMoment endDay"
  shows "diff_days endMoment startMoment = Some (endDay - startDay)"
proof -
  obtain s so where s: "startMoment = Moment s so"
    using assms(1) by (cases startMoment) simp_all
  obtain e eo where e: "endMoment = Moment e eo"
    using assms(2) by (cases endMoment) simp_all
  from assms s e have span: "e - s - (so - eo) * 60000 = (endDay - startDay) * 86400000"
    by (simp add: algebra_simps)
  have "diff_days (Moment e eo) (Moment s so)
          = Some (absFloor (e - s - (so - eo) * 60000) 86400000)"
    by (simp only: diff_days.simps Let_def)
  also have "\<dots> = Some (endDay - startDay)"
    unfolding span by (simp only: absFloor_whole [of 86400000] zero_less_numeral)
  finally show ?thesis
    by (simp only: s e)
qed

text \<open>
  Claim C2, as stated, fails twice over. The spread of the response comes last in the
  object literal, so a \<^verbatim>\<open>resolution\<close> property of the response replaces the derived
  one: for a span of one day and the response \<^verbatim>\<open>{"resolution": "week"}\<close> the chart says
  \<^verbatim>\<open>week\<close>, not \<^verbatim>\<open>hour\<close>. And the span is measured between the local-time parses
  of the two dates: on a host in Cairo the 32 days from 2024-04-26 to 2024-05-28 are an
  hour short, count as 31 and give \<^verbatim>\<open>day\<close>, not \<^verbatim>\<open>month\<close>.
\<close>

theorem time_chart_resolution_overridden:
  "fst (TogglAPI_getSummaryTimeChart utcMoment
          (exampleTransport (JObj [(''resolution'', JStr ''week'')])) 7 exampleOptions)
     = Inr (JObj [(''graph'', JArr []), (''resolution'', JStr ''week''),
                  (''total_seconds'', JNum 0)])
   \<and> getResolutionFromDateRange utcMoment (start_date exampleOptions)
         (end_date exampleOptions) = ''hour''
   \<and> fst (TogglAPI_getSummaryTimeChart cairoMoment
          (exampleTransport (JObj [(''groups'', JArr [])])) 7
          (exampleOptions\<lparr>start_date := ''2024-04-26'', end_date := ''2024-05-28''\<rparr>))
     = Inr (JObj [(''graph'', JArr []), (''resolution'', JStr ''day''),
                  (''total_seconds'', JNum 0), (''groups'', JArr [])])"
  by code_simp

text \<open>
  Claim C2, amended. When the summary response is a value other than null that has no
  \<^verbatim>\<open>resolution\<close> property of its own, \<open>getSummaryTimeChart\<close> succeeds and the
  \<^verbatim>\<open>resolution\<close> of its result depends on the two dates only, through the whole number
  of days that \<^verbatim>\<open>moment\<close> counts from the parse of the start date to the parse of the end
  date: at most 1 gives \<^verbatim>\<open>hour\<close>, at most 7 \<^verbatim>\<open>day\<close>, at most 31 \<^verbatim>\<open>day\<close>, more
  \<^verbatim>\<open>month\<close>, and so does an invalid date. When both dates are read as their local
  midnight, that number is the span in calendar days.
\<close>

theorem time_chart_resolution:
  assumes fetched: "TogglApiClient_getSummaryReport requestUrl workspaceId options
                      = (Inr response, fx)"
    and object: "response \<noteq> JNull" "response \<noteq> JUndefined"
    and own: "''resolution'' \<notin> fst ` set (ownProperties response)"
  shows "\<exists>chart.
           TogglAPI_getSummaryTimeChart moment requestUrl workspaceId options = (Inr chart, fx)
           \<and> getProperty chart ''resolution''
               = JStr (case diff_days (moment (end_date options)) (moment (start_date options)) of
                         Some days \<Rightarrow>
                           if days \<le> 1 then ''hour''
                           else if days \<le> 7 then ''day''
                           else if days \<le> 31 then ''day''
                           else ''month''
                       | None \<Rightarrow> ''month'')
           \<and> (\<forall>startDay endDay.
                 localMidnight (moment (start_date options)) startDay
                 \<and> localMidnight (moment (end_date options)) endDay
                 \<longrightarrow> getProperty chart ''resolution''
                       = JStr (if endDay - startDay \<le> 1 then ''hour''
                               else if endDay - startDay \<le> 7 then ''day''
                               else if endDay - startDay \<le> 31 then ''day''
                               else ''month''))"
proof -
  let ?derived = "getResolutionFromDateRange moment (start_date options) (end_date options)"
  let ?chart = "JObj (spread
                  [(''graph'', orElse (getProperty response ''graph'') (JArr [])),
                   (''resolution'', JStr ?derived),
                   (''total_seconds'',
                    orElse (getProperty response ''total_seconds'') (JNum 0))]
                  response)"
  have run: "TogglAPI_getSummaryTimeChart moment requestUrl workspaceId options
               = (Inr ?chart, fx)"
    using fetched object
    by (simp add: TogglAPI_getSummaryTimeChart_def summaryTimeChart_def catch_resolved
          andThen_def settle_def)
  have chart: "getProperty ?chart ''resolution'' = JStr ?derived"
    by (subst getProperty_spread [OF own]) simp
  have counted: "?derived =
      (case diff_days (moment (end_date options)) (moment (start_date options)) of
         Some days \<Rightarrow>
           if days \<le> 1 then ''hour''
           else if days \<le> 7 then ''day''
           else if days \<le> 31 then ''day''
           else ''month''
       | None \<Rightarrow> ''month'')"
    by (simp add: getResolutionFromDateRange_def Let_def split: option.splits)
  have calendar: "?derived =
      (if endDay - startDay \<le> 1 then ''hour''
       else if endDay - startDay \<le> 7 then ''day''
       else if endDay - startDay \<le> 31 then ''day''
       else ''month'')"
    if "localMidnight (moment (start_date options)) startDay"
      and "localMidnight (moment (end_date options)) endDay" for startDay endDay
    unfolding counted diff_days_localMidnight [OF that] by simp
  show ?thesis
  proof (intro exI [of _ ?chart] conjI allI impI)
    show "TogglAPI_getSummaryTimeChart moment requestUrl workspaceId options
            = (Inr ?chart, fx)"
      by (rule run)
    show "getProperty ?chart ''resolution''
            = JStr (case diff_days (moment (end_date options)) (moment (start_date options)) of
                      Some days \<Rightarrow>
                        if days \<le> 1 then ''hour''
                        else if days \<le> 7 then ''day''
                        else if days \<le> 31 then ''day''
                        else ''month''
                    | None \<Rightarrow> ''month'')"
      using chart counted by (simp only:)
  next
    fix startDay endDay
    assume midnight: "localMidnight (moment (start_date options)) startDay
                      \<and> localMidnight (moment (end_date options)) endDay"
    show "getProperty ?chart ''resolution''
            = JStr (if endDay - startDay \<le> 1 then ''hour''
                    else if endDay - startDay \<le> 7 then ''day''
                    else if endDay - startDay \<le> 31 then ''day''
                    else ''month'')"
      using chart calendar [OF conjunct1 [OF midnight] conjunct2 [OF midnight]]
      by (simp only:)
  qed
qed

text \<open>
  On a host in UTC, the boundary spans of 1, 7, 31 and 32 days from 2024-01-01.
\<close>

theorem time_chart_resolution_witness:
  "(\<exists>chart.
      TogglAPI_getSummaryTimeChart utcMoment
        (exampleTransport (JObj [(''groups'', JArr [])]) :: (ReportOptions, json) transport)
        7 (exampleOptions\<lparr>end_date := ''2024-01-02''\<rparr>) = (Inr chart, [])
      \<and> getProperty chart ''resolution'' = JStr ''hour'')
   \<and> (\<exists>chart.
      TogglAPI_getSummaryTimeChart utcMoment
        (exampleTransport (JObj [(''groups'', JArr [])]) :: (ReportOptions, json) transport)
        7 (exampleOptions\<lparr>end_date := ''2024-01-08''\<rparr>) = (Inr chart, [])
      \<and> getProperty chart ''resolution'' = JStr ''day'')
   \<and> (\<exists>chart.
      TogglAPI_getSummaryTimeChart utcMoment
        (exampleTransport (JObj [(''groups'', JArr [])]) :: (ReportOptions, json) transport)
        7 (exampleOptions\<lparr>end_date := ''2024-02-01''\<rparr>) = (Inr chart, [])
      \<and> getProperty chart ''resolution'' = JStr ''day'')
   \<and> (\<exists>chart.
      TogglAPI_getSummaryTimeChart utcMoment
        (exampleTransport (JObj [(''groups'', JArr [])]) :: (ReportOptions, json) transport)
        7 (exampleOptions\<lparr>end_date := ''2024-02-02''\<rparr>) = (Inr chart, [])
      \<and> getProperty chart ''resolution'' = JStr ''month'')"
proof -
  let ?body = "JObj [(''groups'', JArr [])]"
  have fetched:
    "TogglApiClient_getSummaryReport
       (exampleTransport ?body :: (ReportOptions, json) transport) 7 options = (Inr ?body, [])"
    for options
    by (simp add: TogglApiClient_getSummaryReport_def exampleTransport_def)
  have own: "''resolution'' \<notin> fst ` set (ownProperties ?body)"
    by simp
  have midnight:
    "localMidnight (utcMoment ''2024-01-01'') 19723"
    "localMidnight (utcMoment ''2024-01-02'') (19723 + 1)"
    "localMidnight (utcMoment ''2024-01-08'') (19723 + 7)"
    "localMidnight (utcMoment ''2024-02-01'') (19723 + 31)"
    "localMidnight (utcMoment ''2024-02-02'') (19723 + 32)"
    by (simp_all add: utcMoment_def)
  have chart: "\<exists>chart.
      TogglAPI_getSummaryTimeChart utcMoment
        (exampleTransport ?body :: (ReportOptions, json) transport)
        7 (exampleOptions\<lparr>end_date := endDate\<rparr>) = (Inr chart, [])
      \<and> getProperty chart ''resolution''
          = JStr (if span \<le> 1 then ''hour''
                  else if span \<le> 7 then ''day''
                  else if span \<le> 31 then ''day''
                  else ''month'')"
    if "localMidnight (utcMoment endDate) (19723 + span)" for endDate span
  proof -
    from time_chart_resolution
           [OF fetched _ _ own,
            where options = "exampleOptions\<lparr>end_date := endDate\<rparr>" and moment = utcMoment]
    obtain chart where
      run: "TogglAPI_getSummaryTimeChart utcMoment
              (exampleTransport ?body :: (ReportOptions, json) transport)
              7 (exampleOptions\<lparr>end_date := endDate\<rparr>) = (Inr chart, [])"
      and calendar: "\<forall>startDay endDay.
             localMidnight (utcMoment (start_date (exampleOptions\<lparr>end_date := endDate\<rparr>)))
               startDay
             \<and> localMidnight (utcMoment (end_date (exampleOptions\<lparr>end_date := endDate\<rparr>)))
                 endDay
             \<longrightarrow> getProperty chart ''resolution''
                   = JStr (if endDay - startDay \<le> 1 then ''hour''
                           else if endDay - startDay \<le> 7 then ''day''
                           else if endDay - startDay \<le> 31 then ''day''
                           else ''month'')"
      by auto
    have "localMidnight (utcMoment (start_date (exampleOptions\<lparr>end_date := endDate\<rparr>))) 19723"
      using midnight(1) by (simp add: exampleOptions_def)
    moreover have "localMidnight (utcMoment (end_date (exampleOptions\<lparr>end_date := endDate\<rparr>)))
                     (19723 + span)"
      using that by simp
    ultimately have "getProperty chart ''resolution''
          = JStr (if 19723 + span - 19723 \<le> 1 then ''hour''
                  else if 19723 + span - 19723 \<le> 7 then ''day''
                  else if 19723 + span - 19723 \<le> 31 then ''day''
                  else ''month'')"
      using calendar by blast
    with run show ?thesis
      by simp
  qed
  from chart [OF midnight(2)] chart [OF midnight(3)] chart [OF midnight(4)]
       chart [OF midnight(5)]
  show ?thesis
    by simp
qed

subsection \<open>Projects\<close>

text \<open>
  Claim C4. Whenever the wire client returns a list of projects, \<open>getProjects\<close>
  succeeds; every project of its result is active, and the result is the list of the
  active projects of the response, in order, each with \<^verbatim>\<open>actual_hours\<close> defaulting
  to 0, \<^verbatim>\<open>cid\<close> taken from \<^verbatim>\<open>client_id\<close> when it is absent, null or 0,
  \<^verbatim>\<open>rate_last_updated\<close> and \<^verbatim>\<open>server_deleted_at\<close> defaulting to null, and \<^verbatim>\<open>wid\<close>
  taken from \<^verbatim>\<open>workspace_id\<close> when it is absent, null or 0; every other property is
  unchanged.
\<close>

theorem only_active_projects:
  assumes "TogglApiClient_getProjects requestUrl workspaceId = (Inr projects, fx)"
  shows "\<exists>result.
           TogglAPI_getProjects requestUrl workspaceId = (Inr result, fx)
           \<and> (\<forall>p\<in>set result. tp_active p)
           \<and> result =
               map (\<lambda>p. p\<lparr>
                      tp_actual_hours :=
                        (case tp_actual_hours p of Val h \<Rightarrow> Val h | _ \<Rightarrow> Val 0),
                      tp_cid :=
                        (case tp_cid p of
                           Val c \<Rightarrow> if c = 0 then tp_client_id p else Val c
                         | _ \<Rightarrow> tp_client_id p),
                      tp_rate_last_updated :=
                        (case tp_rate_last_updated p of
                           Val d \<Rightarrow> if d = [] then Null else Val d
                         | _ \<Rightarrow> Null),
                      tp_server_deleted_at :=
                        (case tp_server_deleted_at p of
                           Val d \<Rightarrow> if d = [] then Null else Val d
                         | _ \<Rightarrow> Null),
                      tp_wid :=
                        (case tp_wid p of
                           Val w \<Rightarrow> if w = 0 then tp_workspace_id p else Val w
                         | _ \<Rightarrow> tp_workspace_id p)\<rparr>)
                 (filter (\<lambda>p. tp_active p) projects)"
proof -
  have fill: "backfillProject p =
      p\<lparr>tp_actual_hours := (case tp_actual_hours p of Val h \<Rightarrow> Val h | _ \<Rightarrow> Val 0),
        tp_cid := (case tp_cid p of
                     Val c \<Rightarrow> if c = 0 then tp_client_id p else Val c
                   | _ \<Rightarrow> tp_client_id p),
        tp_rate_last_updated :=
          (case tp_rate_last_updated p of
             Val d \<Rightarrow> if d = [] then Null else Val d
           | _ \<Rightarrow> Null),
        tp_server_deleted_at :=
          (case tp_server_deleted_at p of
             Val d \<Rightarrow> if d = [] then Null else Val d
           | _ \<Rightarrow> Null),
        tp_wid := (case tp_wid p of
                     Val w \<Rightarrow> if w = 0 then tp_workspace_id p else Val w
                   | _ \<Rightarrow> tp_workspace_id p)\<rparr>" for p :: "'m TogglProject_scheme"
    by (simp add: backfillProject_def split: optional.splits)
  have active: "tp_active (backfillProject p) = tp_active p" for p :: "'m TogglProject_scheme"
    by (simp add: backfillProject_def)
  have run: "TogglAPI_getProjects requestUrl workspaceId
               = (Inr (map backfillProject (filter tp_active projects)), fx)"
    using assms by (simp add: TogglAPI_getProjects_def catch_resolved andThen_resolved)
  have "\<forall>p\<in>set (map backfillProject (filter tp_active projects)). tp_active p"
    by (simp add: active)
  moreover have "map backfillProject (filter tp_active projects)
                   = map (\<lambda>p. p\<lparr>
                      tp_actual_hours :=
                        (case tp_actual_hours p of Val h \<Rightarrow> Val h | _ \<Rightarrow> Val 0),
                      tp_cid :=
                        (case tp_cid p of
                           Val c \<Rightarrow> if c = 0 then tp_client_id p else Val c
                         | _ \<Rightarrow> tp_client_id p),
                      tp_rate_last_updated :=
                        (case tp_rate_last_updated p of
                           Val d \<Rightarrow> if d = [] then Null else Val d
                         | _ \<Rightarrow> Null),
                      tp_server_deleted_at :=
                        (case tp_server_deleted_at p of
                           Val d \<Rightarrow> if d = [] then Null else Val d
                         | _ \<Rightarrow> Null),
                      tp_wid :=
                        (case tp_wid p of
                           Val w \<Rightarrow> if w = 0 then tp_workspace_id p else Val w
                         | _ \<Rightarrow> tp_workspace_id p)\<rparr>)
                 (filter (\<lambda>p. tp_active p) projects)"
    by (simp add: fill)
  ultimately show ?thesis
    using run by blast
qed

text \<open>
  An active and an inactive project: only the first is listed, back-filled.
\<close>

theorem only_active_projects_witness:
  "\<exists>result.
     TogglAPI_getProjects
       (exampleTransport [exampleProject, exampleProject\<lparr>tp_id := 43, tp_active := False\<rparr>]
          :: (unit, TogglProject list) transport) 7 = (Inr result, [])
     \<and> list_all tp_active result
     \<and> result =
         [exampleProject\<lparr>tp_actual_hours := Val 0, tp_cid := Val 5,
            tp_rate_last_updated := Null, tp_server_deleted_at := Null, tp_wid := Val 7\<rparr>]"
proof -
  let ?projects = "[exampleProject, exampleProject\<lparr>tp_id := 43, tp_active := False\<rparr>]"
  have fetched:
    "TogglApiClient_getProjects
       (exampleTransport ?projects :: (unit, TogglProject list) transport) 7
       = (Inr ?projects, [])"
    by (simp add: TogglApiClient_getProjects_def request_def exampleTransport_def)
  from only_active_projects [OF fetched] show ?thesis
    by (simp add: list_all_iff exampleProject_def)
qed

subsection \<open>Recent time entries\<close>

lemma set_firstSeen: "set (firstSeen ks) = set ks"
  by (induction ks) auto

lemma distinct_firstSeen: "distinct (firstSeen ks)"
  by (induction ks) auto

lemma firstSeen_snoc:
  "firstSeen (ks @ [k]) = (if k \<in> set ks then firstSeen ks else firstSeen ks @ [k])"
  by (induction ks) (auto simp: set_firstSeen)

lemma map_of_tabulate:
  "map_of (map (\<lambda>k. (k, g k)) ks) k = (if k \<in> set ks then Some (g k) else None)"
  by (induction ks) auto

lemma addTo_groupsOf: "addTo (f x) (h x) (groupsOf f h xs) = groupsOf f h (xs @ [x])"
proof (cases "f x \<in> set (map f xs)")
  case True
  then show ?thesis
    by (auto simp: addTo_def pushTo_def groupsOf_def map_of_tabulate set_firstSeen firstSeen_snoc)
next
  case False
  then have fresh: "\<And>e. e \<in> set xs \<Longrightarrow> f e \<noteq> f x"
    by (metis image_eqI list.set_map)
  then have empty: "filter (\<lambda>e. f e = f x) xs = []"
    by (simp add: filter_empty_conv)
  from False have other: "\<forall>k\<in>set (firstSeen (map f xs)). f x \<noteq> k \<and> k \<noteq> f x"
    by (metis set_firstSeen)
  have "map_of (groupsOf f h xs) (f x) = None"
    using False by (simp add: groupsOf_def map_of_tabulate set_firstSeen)
  moreover have "pushTo (f x) (h x) (groupsOf f h xs @ [(f x, [])])
                   = groupsOf f h xs @ [(f x, [h x])]"
    using other by (simp add: pushTo_def groupsOf_def)
  moreover have "groupsOf f h (xs @ [x]) = groupsOf f h xs @ [(f x, [h x])]"
    using False empty other by (simp add: groupsOf_def firstSeen_snoc)
  ultimately show ?thesis
    by (simp add: addTo_def)
qed

lemma foldl_addTo: "foldl (\<lambda>g e. addTo (f e) (h e) g) [] xs = groupsOf f h xs"
proof (induction xs rule: rev_induct)
  case Nil
  show ?case by (simp add: groupsOf_def)
next
  case (snoc x xs)
  then show ?case by (simp add: addTo_groupsOf)
qed

lemma foldl_addEntry: "foldl addEntry [] xs = groupsOf groupKey occurrence xs"
proof -
  have eq: "addEntry = (\<lambda>g e. addTo (groupKey e) (occurrence e) g)"
    by (intro ext) (simp add: addEntry_def)
  show ?thesis unfolding eq by (rule foldl_addTo)
qed

lemma keys_groupsOf: "map fst (groupsOf f h xs) = firstSeen (map f xs)"
  by (simp add: groupsOf_def comp_def)

lemma entriesOf_groupsOf:
  "entriesOf (groupsOf f h xs) k =
     (if k \<in> set (map f xs) then map h (filter (\<lambda>e. f e = k) xs) else [])"
  by (simp add: entriesOf_def groupsOf_def map_of_tabulate set_firstSeen)

lemma constituents_nonempty: "k \<in> set (map f xs) \<Longrightarrow> filter (\<lambda>e. f e = k) xs \<noteq> []"
  by (induction xs) auto

lemma kept_keys:
  "filter (\<lambda>key. length (entriesOf (groupsOf f h xs) key) > 0) (map fst (groupsOf f h xs))
     = firstSeen (map f xs)"
proof -
  have "\<forall>k\<in>set (firstSeen (map f xs)). 0 < length (entriesOf (groupsOf f h xs) k)"
    using constituents_nonempty [of _ f xs]
    by (simp add: entriesOf_groupsOf set_firstSeen)
  then show ?thesis
    by (simp add: keys_groupsOf)
qed

lemma groupRecentEntries_by_key:
  "groupRecentEntries xs =
     map (\<lambda>(index, key).
            recentItem index
              (find (\<lambda>e. list_ex (\<lambda>entry. occ_id entry = tte_id e)
                               (map occurrence (filter (\<lambda>e. groupKey e = key) xs))) xs)
              (map occurrence (filter (\<lambda>e. groupKey e = key) xs)))
       (enumerate 0 (firstSeen (map groupKey xs)))"
proof -
  have "\<And>index key. (index, key) \<in> set (enumerate 0 (firstSeen (map groupKey xs))) \<Longrightarrow>
          entriesOf (groupsOf groupKey occurrence xs) key
            = map occurrence (filter (\<lambda>e. groupKey e = key) xs)"
    by (auto simp: in_set_enumerate_eq entriesOf_groupsOf set_firstSeen dest: nth_mem)
  then show ?thesis
    unfolding groupRecentEntries_def Let_def foldl_addEntry kept_keys
    by (intro map_cong refl) auto
qed

lemma map_over_enumerate: "map (\<lambda>p. g (snd p)) (enumerate n ks) = map g ks"
  by (induction ks arbitrary: n) simp_all

lemma time_entries_groupRecentEntries:
  "map grp_time_entries (groupRecentEntries xs)
     = map (\<lambda>k. map occurrence (filter (\<lambda>e. groupKey e = k) xs)) (firstSeen (map groupKey xs))"
  unfolding groupRecentEntries_by_key
  using map_over_enumerate
          [of "\<lambda>k. map occurrence (filter (\<lambda>e. groupKey e = k) xs)" 0
              "firstSeen (map groupKey xs)"]
  by (simp add: recentItem_def comp_def split_def)

lemma count_key:
  "distinct ks \<Longrightarrow>
     (\<Sum>k\<leftarrow>ks. if a = k then 1 else 0) = (if a \<in> set ks then 1 else (0::nat))"
  by (induction ks) auto

lemma sum_constituents:
  "distinct ks \<Longrightarrow> f ` set xs \<subseteq> set ks \<Longrightarrow>
     (\<Sum>k\<leftarrow>ks. length (filter (\<lambda>e. f e = k) xs)) = length xs"
proof (induction xs)
  case Nil
  show ?case by simp
next
  case (Cons x xs)
  have "(\<Sum>k\<leftarrow>ks. length (filter (\<lambda>e. f e = k) (x # xs)))
          = (\<Sum>k\<leftarrow>ks. (if f x = k then 1 else 0) + length (filter (\<lambda>e. f e = k) xs))"
    by (intro arg_cong [where f = sum_list] map_cong refl) simp
  also have "\<dots> = (\<Sum>k\<leftarrow>ks. if f x = k then 1 else 0)
                    + (\<Sum>k\<leftarrow>ks. length (filter (\<lambda>e. f e = k) xs))"
    by (simp add: sum_list_addf)
  also have "\<dots> = 1 + length xs"
    using Cons by (simp add: count_key)
  finally show ?case by simp
qed

lemma groupKey_nonempty: "groupKey e \<noteq> []"
  by (simp add: groupKey_def)

lemma find_first_constituent:
  assumes "\<forall>a\<in>set xs. \<forall>b\<in>set xs. tte_id a = tte_id b \<longrightarrow> groupKey a = groupKey b"
  shows "find (\<lambda>e. list_ex (\<lambda>entry. occ_id entry = tte_id e)
                          (map occurrence (filter (\<lambda>e. groupKey e = key) xs))) xs
           = find (\<lambda>e. groupKey e = key) xs"
proof (rule find_cong [OF refl])
  fix e
  assume e: "e \<in> set xs"
  show "list_ex (\<lambda>entry. occ_id entry = tte_id e)
          (map occurrence (filter (\<lambda>e. groupKey e = key) xs)) = (groupKey e = key)"
  proof
    assume "list_ex (\<lambda>entry. occ_id entry = tte_id e)
              (map occurrence (filter (\<lambda>e. groupKey e = key) xs))"
    then obtain e' where e': "e' \<in> set xs" "groupKey e' = key" "tte_id e' = tte_id e"
      by (auto simp: list_ex_iff occurrence_def)
    with assms e have "groupKey e' = groupKey e"
      by blast
    with e' show "groupKey e = key" by simp
  next
    assume "groupKey e = key"
    with e show "list_ex (\<lambda>entry. occ_id entry = tte_id e)
                   (map occurrence (filter (\<lambda>e. groupKey e = key) xs))"
      by (auto simp: list_ex_iff occurrence_def)
  qed
qed

lemma groupKey_exampleEntry: "groupKey exampleEntry = ''9_42_Writing''"
  by code_simp

lemma groupKey_exampleRunningEntry: "groupKey exampleRunningEntry = ''9_42_no_desc''"
  by code_simp

text \<open>
  Claim C3. Whenever the wire client returns a list of raw entries,
  \<open>getRecentTimeEntries\<close> succeeds; every group of its result has at least one
  occurrence, and the occurrence lists of all groups together are as many as the raw
  entries whose grouping key is not empty (which is all of them).
\<close>

theorem recent_groups_partition:
  assumes "TogglApiClient_getTimeEntries requestUrl (Val startDate) (Val endDate)
             = (Inr response, fx)"
  shows "\<exists>groups.
           TogglAPI_getRecentTimeEntries requestUrl startDate endDate = (Inr groups, fx)
           \<and> (\<forall>g\<in>set groups. 1 \<le> length (grp_time_entries g))
           \<and> (\<Sum>g\<leftarrow>groups. length (grp_time_entries g))
               = length (filter (\<lambda>e. groupKey e \<noteq> []) response)"
proof -
  let ?ks = "firstSeen (map groupKey response)"
  let ?groups = "groupRecentEntries response"
  have run: "TogglAPI_getRecentTimeEntries requestUrl startDate endDate = (Inr ?groups, fx)"
    using assms
    by (simp add: TogglAPI_getRecentTimeEntries_def catch_resolved andThen_resolved)
  have entries: "map grp_time_entries ?groups
                   = map (\<lambda>k. map occurrence (filter (\<lambda>e. groupKey e = k) response)) ?ks"
    by (rule time_entries_groupRecentEntries)
  have "\<forall>es\<in>set (map grp_time_entries ?groups). 1 \<le> length es"
    unfolding entries
    using constituents_nonempty [of _ groupKey response]
    by (auto simp: set_firstSeen Suc_le_eq)
  then have nonempty: "\<forall>g\<in>set ?groups. 1 \<le> length (grp_time_entries g)"
    by simp
  have "(\<Sum>g\<leftarrow>?groups. length (grp_time_entries g))
          = sum_list (map length (map grp_time_entries ?groups))"
    by (simp add: comp_def)
  also have "\<dots> = (\<Sum>k\<leftarrow>?ks. length (filter (\<lambda>e. groupKey e = k) response))"
    unfolding entries by (simp add: comp_def)
  also have "\<dots> = length response"
    by (rule sum_constituents) (simp_all add: distinct_firstSeen set_firstSeen)
  also have "\<dots> = length (filter (\<lambda>e. groupKey e \<noteq> []) response)"
    by (simp add: groupKey_nonempty)
  finally show ?thesis
    using run nonempty by blast
qed

text \<open>
  Three raw entries in two groups.
\<close>

theorem recent_groups_partition_witness:
  "\<exists>groups.
     TogglAPI_getRecentTimeEntries
       (exampleTransport [exampleEntry, exampleRunningEntry, exampleEntry\<lparr>tte_id := 3\<rparr>]
          :: (unit, TogglTimeEntry list) transport)
       ''2024-01-01'' ''2024-01-10'' = (Inr groups, [])
     \<and> list_all (\<lambda>g. 1 \<le> length (grp_time_entries g)) groups
     \<and> (\<Sum>g\<leftarrow>groups. length (grp_time_entries g)) = 3"
proof -
  let ?response = "[exampleEntry, exampleRunningEntry, exampleEntry\<lparr>tte_id := 3\<rparr>]"
  have fetched:
    "TogglApiClient_getTimeEntries
       (exampleTransport ?response :: (unit, TogglTimeEntry list) transport)
       (Val ''2024-01-01'') (Val ''2024-01-10'') = (Inr ?response, [])"
    by (simp add: TogglApiClient_getTimeEntries_def request_def exampleTransport_def)
  from recent_groups_partition [OF fetched] show ?thesis
    by (simp add: groupKey_nonempty list_all_iff eval_nat_numeral)
qed

text \<open>
  Claim C8. Whenever the wire client returns raw entries, the groups of
  \<open>getRecentTimeEntries\<close> are the grouping keys in first-seen order; the group at
  position \<open>i\<close> (from 0) holds the occurrences of the entries of its key in input order
  and has the row number \<open>i + 1\<close>. The first entry of a group is found by id among the
  raw entries. When raw entries with the same id have the same key, as they do in every
  list of the remote service, whose ids are unique, the group carries the description,
  project id, tag ids and user id of the first raw entry of its key (an absent
  description as the empty string, an absent or zero project id as null, the tag ids as
  strings).
\<close>

theorem recent_groups_order:
  assumes fetched: "TogglApiClient_getTimeEntries requestUrl (Val startDate) (Val endDate)
                      = (Inr response, fx)"
  shows "\<exists>groups.
           TogglAPI_getRecentTimeEntries requestUrl startDate endDate = (Inr groups, fx)
           \<and> length groups = length (firstSeen (map groupKey response))
           \<and> (\<forall>i < length groups.
                 grp_time_entries (groups ! i)
                   = map occurrence
                       (filter (\<lambda>e. groupKey e = firstSeen (map groupKey response) ! i)
                          response)
                 \<and> grp_row_number (groups ! i) = int i + 1
                 \<and> ((\<forall>a\<in>set response. \<forall>b\<in>set response.
                      tte_id a = tte_id b \<longrightarrow> groupKey a = groupKey b) \<longrightarrow>
                     (\<exists>first.
                        find (\<lambda>e. groupKey e = firstSeen (map groupKey response) ! i) response
                          = Some first
                        \<and> grp_description (groups ! i)
                            = (case tte_description first of Val d \<Rightarrow> d | _ \<Rightarrow> [])
                        \<and> grp_project_id (groups ! i)
                            = (case tte_project_id first of
                                 Val p \<Rightarrow> if p = 0 then Null else Val p
                               | _ \<Rightarrow> Null)
                        \<and> grp_tag_ids (groups ! i)
                            = (case tte_tag_ids first of
                                 Val ts \<Rightarrow> map Number_toString ts
                               | _ \<Rightarrow> [])
                        \<and> grp_user_id (groups ! i) = tte_user_id first)))"
proof -
  let ?ks = "firstSeen (map groupKey response)"
  let ?groups = "groupRecentEntries response"
  let ?byId = "\<lambda>key e. list_ex (\<lambda>entry. occ_id entry = tte_id e)
                          (map occurrence (filter (\<lambda>e. groupKey e = key) response))"
  have run: "TogglAPI_getRecentTimeEntries requestUrl startDate endDate = (Inr ?groups, fx)"
    using fetched
    by (simp add: TogglAPI_getRecentTimeEntries_def catch_resolved andThen_resolved)
  have len: "length ?groups = length ?ks"
    by (simp add: groupRecentEntries_by_key)
  have each: "grp_time_entries (?groups ! i)
                = map occurrence (filter (\<lambda>e. groupKey e = ?ks ! i) response)
              \<and> grp_row_number (?groups ! i) = int i + 1
              \<and> ((\<forall>a\<in>set response. \<forall>b\<in>set response.
                      tte_id a = tte_id b \<longrightarrow> groupKey a = groupKey b) \<longrightarrow>
                  (\<exists>first.
                     find (\<lambda>e. groupKey e = ?ks ! i) response = Some first
                     \<and> grp_description (?groups ! i)
                         = (case tte_description first of Val d \<Rightarrow> d | _ \<Rightarrow> [])
                     \<and> grp_project_id (?groups ! i)
                         = (case tte_project_id first of
                              Val p \<Rightarrow> if p = 0 then Null else Val p
                            | _ \<Rightarrow> Null)
                     \<and> grp_tag_ids (?groups ! i)
                         = (case tte_tag_ids first of
                              Val ts \<Rightarrow> map Number_toString ts
                            | _ \<Rightarrow> [])
                     \<and> grp_user_id (?groups ! i) = tte_user_id first))"
    if i: "i < length ?groups" for i
  proof -
    from i len have ik: "i < length ?ks" by simp
    have item: "?groups ! i =
        recentItem i (find (?byId (?ks ! i)) response)
          (map occurrence (filter (\<lambda>e. groupKey e = ?ks ! i) response))"
      using ik by (simp add: groupRecentEntries_by_key nth_enumerate_eq)
    have order: "grp_time_entries (?groups ! i)
                   = map occurrence (filter (\<lambda>e. groupKey e = ?ks ! i) response)
                 \<and> grp_row_number (?groups ! i) = int i + 1"
      unfolding item by (simp add: recentItem_def)
    have metadata: "\<exists>first.
                     find (\<lambda>e. groupKey e = ?ks ! i) response = Some first
                     \<and> grp_description (?groups ! i)
                         = (case tte_description first of Val d \<Rightarrow> d | _ \<Rightarrow> [])
                     \<and> grp_project_id (?groups ! i)
                         = (case tte_project_id first of
                              Val p \<Rightarrow> if p = 0 then Null else Val p
                            | _ \<Rightarrow> Null)
                     \<and> grp_tag_ids (?groups ! i)
                         = (case tte_tag_ids first of
                              Val ts \<Rightarrow> map Number_toString ts
                            | _ \<Rightarrow> [])
                     \<and> grp_user_id (?groups ! i) = tte_user_id first"
      if ids: "\<forall>a\<in>set response. \<forall>b\<in>set response.
                 tte_id a = tte_id b \<longrightarrow> groupKey a = groupKey b"
    proof -
      from ik have "?ks ! i \<in> set (map groupKey response)"
        using set_firstSeen [of "map groupKey response"] nth_mem by blast
      then obtain e where "e \<in> set response" "groupKey e = ?ks ! i"
        by auto
      then obtain first where first: "find (\<lambda>e. groupKey e = ?ks ! i) response = Some first"
        by (cases "find (\<lambda>e. groupKey e = ?ks ! i) response") (auto simp: find_None_iff)
      have byKey: "?groups ! i =
          recentItem i (Some first)
            (map occurrence (filter (\<lambda>e. groupKey e = ?ks ! i) response))"
        unfolding item find_first_constituent [OF ids] first ..
      show ?thesis
        unfolding byKey first
        by (cases "tte_project_id first"; cases "tte_tag_ids first")
           (simp_all add: recentItem_def)
    qed
    from order metadata show ?thesis
      by blast
  qed
  from run len each show ?thesis
    by blast
qed

text \<open>
  Three raw entries with the ids 1, 2, 1: the first and the third share a key, and the
  group of the two reports the tag ids of the first.
\<close>

theorem recent_groups_order_witness:
  "list_all
     (\<lambda>a. list_all (\<lambda>b. tte_id a = tte_id b \<longrightarrow> groupKey a = groupKey b)
            [exampleEntry, exampleRunningEntry, exampleEntry\<lparr>tte_tag_ids := Val [5]\<rparr>])
     [exampleEntry, exampleRunningEntry, exampleEntry\<lparr>tte_tag_ids := Val [5]\<rparr>]
   \<and> (\<exists>groups.
         TogglAPI_getRecentTimeEntries
           (exampleTransport
              [exampleEntry, exampleRunningEntry, exampleEntry\<lparr>tte_tag_ids := Val [5]\<rparr>]
              :: (unit, TogglTimeEntry list) transport)
           ''2024-01-01'' ''2024-01-10'' = (Inr groups, [])
         \<and> length groups = 2
         \<and> grp_time_entries (groups ! 0)
             = [occurrence exampleEntry, occurrence (exampleEntry\<lparr>tte_tag_ids := Val [5]\<rparr>)]
         \<and> grp_row_number (groups ! 0) = 1
         \<and> grp_description (groups ! 0) = ''Writing''
         \<and> grp_tag_ids (groups ! 0) = [''3'', ''4'']
         \<and> grp_time_entries (groups ! 1) = [occurrence exampleRunningEntry]
         \<and> grp_row_number (groups ! 1) = 2
         \<and> grp_description (groups ! 1) = [])"
proof -
  let ?third = "exampleEntry\<lparr>tte_tag_ids := Val [5]\<rparr>"
  let ?response = "[exampleEntry, exampleRunningEntry, ?third]"
  have fetched:
    "TogglApiClient_getTimeEntries
       (exampleTransport ?response :: (unit, TogglTimeEntry list) transport)
       (Val ''2024-01-01'') (Val ''2024-01-10'') = (Inr ?response, [])"
    by (simp add: TogglApiClient_getTimeEntries_def request_def exampleTransport_def)
  have third: "groupKey ?third = ''9_42_Writing''"
    using groupKey_exampleEntry by (simp add: groupKey_def)
  have id: "tte_id exampleEntry = 1" "tte_id exampleRunningEntry = 2" "tte_id ?third = 1"
    by (simp_all add: exampleEntry_def exampleRunningEntry_def)
  have ids: "\<forall>a\<in>set ?response. \<forall>b\<in>set ?response.
               tte_id a = tte_id b \<longrightarrow> groupKey a = groupKey b"
    by (simp add: id third groupKey_exampleEntry)
  have keys: "firstSeen (map groupKey ?response) = [''9_42_Writing'', ''9_42_no_desc'']"
    by (simp add: groupKey_exampleEntry groupKey_exampleRunningEntry third)
  from recent_groups_order [OF fetched] obtain groups where
    run: "TogglAPI_getRecentTimeEntries
            (exampleTransport ?response :: (unit, TogglTimeEntry list) transport)
            ''2024-01-01'' ''2024-01-10'' = (Inr groups, [])"
    and len: "length groups = length (firstSeen (map groupKey ?response))"
    and each: "\<forall>i < length groups.
                 grp_time_entries (groups ! i)
                   = map occurrence
                       (filter (\<lambda>e. groupKey e = firstSeen (map groupKey ?response) ! i)
                          ?response)
                 \<and> grp_row_number (groups ! i) = int i + 1
                 \<and> ((\<forall>a\<in>set ?response. \<forall>b\<in>set ?response.
                        tte_id a = tte_id b \<longrightarrow> groupKey a = groupKey b) \<longrightarrow>
                     (\<exists>first.
                        find (\<lambda>e. groupKey e = firstSeen (map groupKey ?response) ! i) ?response
                          = Some first
                        \<and> grp_description (groups ! i)
                            = (case tte_description first of Val d \<Rightarrow> d | _ \<Rightarrow> [])
                        \<and> grp_project_id (groups ! i)
                            = (case tte_project_id first of
                                 Val p \<Rightarrow> if p = 0 then Null else Val p
                               | _ \<Rightarrow> Null)
                        \<and> grp_tag_ids (groups ! i)
                            = (case tte_tag_ids first of
                                 Val ts \<Rightarrow> map Number_toString ts
                               | _ \<Rightarrow> [])
                        \<and> grp_user_id (groups ! i) = tte_user_id first))"
    by blast
  have len2: "length groups = 2"
    using len [unfolded keys] by simp
  have fields: "tte_description exampleEntry = Val ''Writing''"
    "tte_description exampleRunningEntry = Null"
    "tte_tag_ids exampleEntry = Val [3, 4]"
    by (simp_all add: exampleEntry_def exampleRunningEntry_def)
  have tags: "Number_toString 3 = ''3''" "Number_toString 4 = ''4''"
    by code_simp+
  have i0: "0 < length groups" and i1: "1 < length groups"
    using len2 by simp_all
  from each [rule_format, OF i0] ids
  have "grp_time_entries (groups ! 0)
          = map occurrence
              (filter (\<lambda>e. groupKey e = firstSeen (map groupKey ?response) ! 0) ?response)
        \<and> grp_row_number (groups ! 0) = int 0 + 1
        \<and> (\<exists>first.
              find (\<lambda>e. groupKey e = firstSeen (map groupKey ?response) ! 0) ?response
                = Some first
              \<and> grp_description (groups ! 0)
                  = (case tte_description first of Val d \<Rightarrow> d | _ \<Rightarrow> [])
              \<and> grp_tag_ids (groups ! 0)
                  = (case tte_tag_ids first of Val ts \<Rightarrow> map Number_toString ts | _ \<Rightarrow> []))"
    by blast
  then have g0: "grp_time_entries (groups ! 0) = [occurrence exampleEntry, occurrence ?third]
      \<and> grp_row_number (groups ! 0) = 1 \<and> grp_description (groups ! 0) = ''Writing''
      \<and> grp_tag_ids (groups ! 0) = [''3'', ''4'']"
    unfolding keys
    by (auto simp: groupKey_exampleEntry groupKey_exampleRunningEntry third fields tags)
  from each [rule_format, OF i1] ids
  have "grp_time_entries (groups ! 1)
          = map occurrence
              (filter (\<lambda>e. groupKey e = firstSeen (map groupKey ?response) ! 1) ?response)
        \<and> grp_row_number (groups ! 1) = int 1 + 1
        \<and> (\<exists>first.
              find (\<lambda>e. groupKey e = firstSeen (map groupKey ?response) ! 1) ?response
                = Some first
              \<and> grp_description (groups ! 1)
                  = (case tte_description first of Val d \<Rightarrow> d | _ \<Rightarrow> []))"
    by blast
  then have g1: "grp_time_entries (groups ! 1) = [occurrence exampleRunningEntry]
      \<and> grp_row_number (groups ! 1) = 2 \<and> grp_description (groups ! 1) = []"
    unfolding keys
    by (auto simp: groupKey_exampleEntry groupKey_exampleRunningEntry third fields)
  from ids have "list_all
     (\<lambda>a. list_all (\<lambda>b. tte_id a = tte_id b \<longrightarrow> groupKey a = groupKey b) ?response)
     ?response"
    by (simp only: list_all_iff)
  with run len2 g0 g1 show ?thesis
    by blast
qed

text \<open>
  The lookup by id is what the condition on the ids is for: were two raw entries of
  different groups to carry the same id, the later group would report the metadata of
  the earlier entry, here \<^verbatim>\<open>Writing\<close> for the entry described as \<^verbatim>\<open>Reading\<close>.
\<close>

lemma shared_id_across_groups:
  "fst (TogglAPI_getRecentTimeEntries
          (exampleTransport [exampleEntry, exampleEntry\<lparr>tte_description := Val ''Reading''\<rparr>]
             :: (unit, TogglTimeEntry list) transport)
          ''2024-01-01'' ''2024-01-10'')
     = Inr [recentItem 0 (Some exampleEntry) [occurrence exampleEntry],
            recentItem 1 (Some exampleEntry)
              [occurrence (exampleEntry\<lparr>tte_description := Val ''Reading''\<rparr>)]]
   \<and> groupKey exampleEntry = ''9_42_Writing''
   \<and> groupKey (exampleEntry\<lparr>tte_description := Val ''Reading''\<rparr>) = ''9_42_Reading''
   \<and> grp_description (recentItem 1 (Some exampleEntry)
          [occurrence (exampleEntry\<lparr>tte_description := Val ''Reading''\<rparr>)]) = ''Writing''"
  by code_simp


subsection \<open>Timers\<close>

text \<open>
  Claim C9. Whenever the wire client returns the body of the current time entry,
  \<open>getCurrentTimer\<close> succeeds; its result is null exactly when the body is null or
  absent, and otherwise it is the entry in the stable shape: every property copied, the
  description the empty string when absent, the tags and tag ids empty when absent.
\<close>

theorem current_timer_null_or_normalized:
  assumes "TogglApiClient_getCurrentTimeEntry requestUrl = (Inr body, fx)"
  shows "\<exists>result.
           TogglAPI_getCurrentTimer requestUrl = (Inr result, fx)
           \<and> ((result = Null) = (body = Null \<or> body = Undefined))
           \<and> (\<forall>r. body = Val r \<longrightarrow>
                 result = Val
                   \<lparr>te_at = tte_at r,
                    te_billable = Undefined,
                    te_description = (case tte_description r of Val d \<Rightarrow> d | _ \<Rightarrow> []),
                    te_duration = tte_duration r,
                    te_id = tte_id r,
                    te_project_id = tte_project_id r,
                    te_server_deleted_at = tte_server_deleted_at r,
                    te_start = tte_start r,
                    te_stop = tte_stop r,
                    te_tag_ids = (case tte_tag_ids r of Val ts \<Rightarrow> ts | _ \<Rightarrow> []),
                    te_tags = (case tte_tags r of Val ts \<Rightarrow> ts | _ \<Rightarrow> []),
                    te_user_id = tte_user_id r,
                    te_workspace_id = tte_workspace_id r\<rparr>)"
proof (cases body)
  case (Val r)
  have "or_empty_array (tte_tag_ids r) = (case tte_tag_ids r of Val ts \<Rightarrow> ts | _ \<Rightarrow> [])"
    "or_empty_array (tte_tags r) = (case tte_tags r of Val ts \<Rightarrow> ts | _ \<Rightarrow> [])"
    by (simp_all split: optional.splits)
  with assms Val show ?thesis
    by (simp add: TogglAPI_getCurrentTimer_def andThen_def resolve_def)
next
  case Undefined
  with assms show ?thesis
    by (simp add: TogglAPI_getCurrentTimer_def andThen_def resolve_def)
next
  case Null
  with assms show ?thesis
    by (simp add: TogglAPI_getCurrentTimer_def andThen_def resolve_def)
qed

text \<open>
  No running timer, and a running one without a description.
\<close>

theorem current_timer_null_or_normalized_witness:
  "(\<exists>result.
      TogglAPI_getCurrentTimer
        (exampleTransport Null :: (unit, TogglTimeEntry optional) transport) = (Inr result, [])
      \<and> result = Null)
   \<and> (\<exists>result.
      TogglAPI_getCurrentTimer
        (exampleTransport (Val exampleRunningEntry)
           :: (unit, TogglTimeEntry optional) transport) = (Inr result, [])
      \<and> result \<noteq> Null
      \<and> result = Val
          \<lparr>te_at = ''2024-01-05T09:01:00Z'', te_billable = Undefined, te_description = [],
           te_duration = - 1704445200, te_id = 2, te_project_id = Val 42,
           te_server_deleted_at = Null, te_start = ''2024-01-05T09:00:00Z'', te_stop = Null,
           te_tag_ids = [3, 4], te_tags = [], te_user_id = 9, te_workspace_id = 7\<rparr>)"
proof -
  have none:
    "TogglApiClient_getCurrentTimeEntry
       (exampleTransport Null :: (unit, TogglTimeEntry optional) transport) = (Inr Null, [])"
    by (simp add: TogglApiClient_getCurrentTimeEntry_def request_def exampleTransport_def)
  have running:
    "TogglApiClient_getCurrentTimeEntry
       (exampleTransport (Val exampleRunningEntry)
          :: (unit, TogglTimeEntry optional) transport) = (Inr (Val exampleRunningEntry), [])"
    by (simp add: TogglApiClient_getCurrentTimeEntry_def request_def exampleTransport_def)
  from current_timer_null_or_normalized [OF none]
       current_timer_null_or_normalized [OF running]
  show ?thesis
    by (simp add: exampleRunningEntry_def exampleEntry_def)
qed

text \<open>
  Claim C7. The payload that \<open>startTimer\<close> submits has a null \<^verbatim>\<open>stop\<close> and the
  duration \<open>- unix\<close>, which is negative for a clock after the epoch. Whenever the wire
  client returns an entry whose \<^verbatim>\<open>stop\<close> is null exactly when its duration is
  negative, \<open>startTimer\<close>, \<open>stopTimer\<close> and \<open>getCurrentTimer\<close> succeed with a
  \<open>TimeEntry\<close> of which the same holds.
\<close>

theorem stop_pairing_preserved:
  "(0 < unix \<longrightarrow>
      stopPairedWithDuration (pl_stop (startTimerPayload workspaceId unix formatted start))
        (pl_duration (startTimerPayload workspaceId unix formatted start)))
   \<and> (\<forall>created fx.
         TogglApiClient_createTimeEntry requestUrl\<^sub>1 workspaceId
           (startTimerPayload workspaceId unix formatted start) = (Inr created, fx)
         \<and> stopPairedWithDuration (tte_stop created) (tte_duration created)
         \<longrightarrow> (\<exists>entry.
                TogglAPI_startTimer requestUrl\<^sub>1 workspaceId unix formatted start
                  = (Inr entry, fx)
                \<and> stopPairedWithDuration (te_stop entry) (te_duration entry)))
   \<and> (\<forall>stopped fx.
         TogglApiClient_stopTimeEntry requestUrl\<^sub>2 workspaceId (te_id running)
           = (Inr stopped, fx)
         \<and> stopPairedWithDuration (tte_stop stopped) (tte_duration stopped)
         \<longrightarrow> (\<exists>entry.
                TogglAPI_stopTimer requestUrl\<^sub>2 workspaceId running = (Inr entry, fx)
                \<and> stopPairedWithDuration (te_stop entry) (te_duration entry)))
   \<and> (\<forall>current fx.
         TogglApiClient_getCurrentTimeEntry requestUrl\<^sub>3 = (Inr (Val current), fx)
         \<and> stopPairedWithDuration (tte_stop current) (tte_duration current)
         \<longrightarrow> (\<exists>entry.
                TogglAPI_getCurrentTimer requestUrl\<^sub>3 = (Inr (Val entry), fx)
                \<and> stopPairedWithDuration (te_stop entry) (te_duration entry)))"
proof (intro conjI impI allI)
  assume "0 < unix"
  then show "stopPairedWithDuration (pl_stop (startTimerPayload workspaceId unix formatted start))
               (pl_duration (startTimerPayload workspaceId unix formatted start))"
    by (simp add: stopPairedWithDuration_def startTimerPayload_def)
next
  fix created fx
  assume "TogglApiClient_createTimeEntry requestUrl\<^sub>1 workspaceId
            (startTimerPayload workspaceId unix formatted start) = (Inr created, fx)
          \<and> stopPairedWithDuration (tte_stop created) (tte_duration created)"
  then show "\<exists>entry.
               TogglAPI_startTimer requestUrl\<^sub>1 workspaceId unix formatted start
                 = (Inr entry, fx)
               \<and> stopPairedWithDuration (te_stop entry) (te_duration entry)"
    by (simp add: TogglAPI_startTimer_def catch_resolved andThen_resolved)
next
  fix stopped fx
  assume "TogglApiClient_stopTimeEntry requestUrl\<^sub>2 workspaceId (te_id running)
            = (Inr stopped, fx)
          \<and> stopPairedWithDuration (tte_stop stopped) (tte_duration stopped)"
  then show "\<exists>entry.
               TogglAPI_stopTimer requestUrl\<^sub>2 workspaceId running = (Inr entry, fx)
               \<and> stopPairedWithDuration (te_stop entry) (te_duration entry)"
    by (simp add: TogglAPI_stopTimer_def catch_resolved andThen_resolved)
next
  fix current fx
  assume "TogglApiClient_getCurrentTimeEntry requestUrl\<^sub>3 = (Inr (Val current), fx)
          \<and> stopPairedWithDuration (tte_stop current) (tte_duration current)"
  then show "\<exists>entry.
               TogglAPI_getCurrentTimer requestUrl\<^sub>3 = (Inr (Val entry), fx)
               \<and> stopPairedWithDuration (te_stop entry) (te_duration entry)"
    by (simp add: TogglAPI_getCurrentTimer_def andThen_def resolve_def)
qed

text \<open>
  A start at Unix time 1704445200, answered with a running entry; a stop, answered with
  a stopped entry; the current timer, a running entry.
\<close>

theorem stop_pairing_preserved_witness:
  "(0::int) < 1704445200
   \<and> stopPairedWithDuration
       (pl_stop (startTimerPayload 7 1704445200 ''2024-01-05T09:00:00+00:00'' exampleStart))
       (pl_duration (startTimerPayload 7 1704445200 ''2024-01-05T09:00:00+00:00'' exampleStart))
   \<and> (\<exists>entry.
         TogglAPI_startTimer
           (exampleTransport exampleRunningEntry
              :: (TimeEntryPayload TimeEntryBody, TogglTimeEntry) transport)
           7 1704445200 ''2024-01-05T09:00:00+00:00'' exampleStart = (Inr entry, [])
         \<and> stopPairedWithDuration (te_stop entry) (te_duration entry))
   \<and> (\<exists>entry.
         TogglAPI_stopTimer
           (exampleTransport exampleEntry :: (unit, TogglTimeEntry) transport)
           7 exampleRunning = (Inr entry, [])
         \<and> stopPairedWithDuration (te_stop entry) (te_duration entry))
   \<and> (\<exists>entry.
         TogglAPI_getCurrentTimer
           (exampleTransport (Val exampleRunningEntry)
              :: (unit, TogglTimeEntry optional) transport) = (Inr (Val entry), [])
         \<and> stopPairedWithDuration (te_stop entry) (te_duration entry))"
proof -
  have clock: "(0::int) < 1704445200"
    by simp
  have created:
    "TogglApiClient_createTimeEntry
       (exampleTransport exampleRunningEntry
          :: (TimeEntryPayload TimeEntryBody, TogglTimeEntry) transport) 7
       (startTimerPayload 7 1704445200 ''2024-01-05T09:00:00+00:00'' exampleStart)
       = (Inr exampleRunningEntry, [])
     \<and> stopPairedWithDuration (tte_stop exampleRunningEntry) (tte_duration exampleRunningEntry)"
    by (simp add: TogglApiClient_createTimeEntry_def request_def exampleTransport_def
          stopPairedWithDuration_def exampleRunningEntry_def exampleEntry_def)
  have stopped:
    "TogglApiClient_stopTimeEntry
       (exampleTransport exampleEntry :: (unit, TogglTimeEntry) transport) 7
       (te_id exampleRunning) = (Inr exampleEntry, [])
     \<and> stopPairedWithDuration (tte_stop exampleEntry) (tte_duration exampleEntry)"
    by (simp add: TogglApiClient_stopTimeEntry_def request_def exampleTransport_def
          stopPairedWithDuration_def exampleEntry_def)
  have current:
    "TogglApiClient_getCurrentTimeEntry
       (exampleTransport (Val exampleRunningEntry)
          :: (unit, TogglTimeEntry optional) transport) = (Inr (Val exampleRunningEntry), [])
     \<and> stopPairedWithDuration (tte_stop exampleRunningEntry) (tte_duration exampleRunningEntry)"
    by (simp add: TogglApiClient_getCurrentTimeEntry_def request_def exampleTransport_def
          stopPairedWithDuration_def exampleRunningEntry_def exampleEntry_def)
  note all = stop_pairing_preserved
    [where unix = 1704445200 and workspaceId = 7
       and formatted = "''2024-01-05T09:00:00+00:00''" and start = exampleStart
       and ?requestUrl\<^sub>1.0 = "exampleTransport exampleRunningEntry"
       and ?requestUrl\<^sub>2.0 = "exampleTransport exampleEntry :: (unit, TogglTimeEntry) transport"
       and running = exampleRunning
       and ?requestUrl\<^sub>3.0 = "exampleTransport (Val exampleRunningEntry)
                                 :: (unit, TogglTimeEntry optional) transport"]
  from all clock created stopped current show ?thesis
    by blast
qed

end
